theory Spec2Isabelle
  imports Main
begin

section \<open>JavaScript strings and values used by the draw controller\<close>

text \<open>
  The embedding follows \<^verbatim>\<open>src/app/drawController.js\<close>. JavaScript strings are
  \<^typ>\<open>string\<close>; \<^verbatim>\<open>undefined\<close> is \<open>None\<close>; an exception is a value of
  type \<open>error\<close>.
\<close>

datatype error = TypeError | InvalidOperation

text \<open>\<^verbatim>\<open>arr[0]\<close>: the first element, \<^verbatim>\<open>undefined\<close> on an empty array.\<close>

fun nth0 :: "'a list \<Rightarrow> 'a option" where
  "nth0 [] = None"
| "nth0 (x # xs) = Some x"

text \<open>\<^verbatim>\<open>s.startsWith(p)\<close>.\<close>

definition startsWith :: "string \<Rightarrow> string \<Rightarrow> bool" where
  "startsWith s p = (take (length p) s = p)"

text \<open>
  \<^verbatim>\<open>s.indexOf(sub)\<close>: the index of the first occurrence of \<open>sub\<close> in \<open>s\<close>,
  \<open>-1\<close> when there is none.
\<close>

fun indexOfFrom :: "string \<Rightarrow> string \<Rightarrow> int \<Rightarrow> int" where
  "indexOfFrom [] sub i = (if sub = [] then i else - 1)"
| "indexOfFrom (c # cs) sub i =
     (if take (length sub) (c # cs) = sub then i else indexOfFrom cs sub (i + 1))"

definition indexOf :: "string \<Rightarrow> string \<Rightarrow> int" where
  "indexOf s sub = indexOfFrom s sub 0"

text \<open>
  \<^verbatim>\<open>s.substring(a, b)\<close> and \<^verbatim>\<open>s.substring(a)\<close>: both indices are clamped to
  \<open>[0, length s]\<close> and swapped when the first is the larger one.
\<close>

definition clampIndex :: "string \<Rightarrow> int \<Rightarrow> nat" where
  "clampIndex s i = (if i < 0 then 0 else min (nat i) (length s))"

definition substring2 :: "string \<Rightarrow> int \<Rightarrow> int \<Rightarrow> string" where
  "substring2 s a b =
     (let a' = clampIndex s a; b' = clampIndex s b;
          lo = min a' b'; hi = max a' b'
      in take (hi - lo) (drop lo s))"

definition substring1 :: "string \<Rightarrow> int \<Rightarrow> string" where
  "substring1 s a = drop (clampIndex s a) s"

text \<open>
  A component of a position is a JavaScript number, and string concatenation prints it
  with \<^verbatim>\<open>Number::toString\<close> (ECMAScript, radix 10): \<^verbatim>\<open>NaN\<close>; \<^verbatim>\<open>0\<close> for
  zero of either sign; a minus sign before the text of a negative number;
  \<^verbatim>\<open>Infinity\<close>; and for a finite positive number the text built from the integers
  \<open>n\<close>, \<open>k\<close> and \<open>s\<close> of the standard: the number is \<open>s * 10 ^ (n - k)\<close>, \<open>s\<close>
  has \<open>k\<close> decimal digits, and \<open>k\<close> is as small as possible. A finite number that
  is not zero is modelled by its sign, \<open>s\<close> and \<open>n\<close>. As \<open>k\<close> is minimal, the last
  digit of \<open>s\<close> is not 0: \<open>s\<close> is kept as the digits before the last, \<open>leading\<close>, and
  the last digit, \<open>final\<close>, so that every value of the type is a number in this form.
  \<open>Finite False 0 L3 1\<close> is 3, \<open>Finite False 1 L2 2\<close> is 12, \<open>Finite True 1 L5 1\<close>
  is -1.5 and \<open>Finite False 0 L1 22\<close> is \<open>10 ^ 21\<close>.
\<close>

definition digitChar :: "nat \<Rightarrow> char" where
  "digitChar d = ''0123456789'' ! d"

text \<open>The decimal digits of a natural number.\<close>

fun natToString :: "nat \<Rightarrow> string" where
  "natToString n =
     (if n < 10 then [digitChar n] else natToString (n div 10) @ [digitChar (n mod 10)])"

declare natToString.simps [simp del]

datatype lastDigit = L1 | L2 | L3 | L4 | L5 | L6 | L7 | L8 | L9

fun lastValue :: "lastDigit \<Rightarrow> nat" where
  "lastValue L1 = 1"
| "lastValue L2 = 2"
| "lastValue L3 = 3"
| "lastValue L4 = 4"
| "lastValue L5 = 5"
| "lastValue L6 = 6"
| "lastValue L7 = 7"
| "lastValue L8 = 8"
| "lastValue L9 = 9"

datatype number = NaN | Zero | Infinity bool | Finite bool nat lastDigit int

text \<open>
  \<^verbatim>\<open>Number::toString\<close> of the positive number \<open>s * 10 ^ (n - k)\<close>. With \<open>n\<close>
  from -5 to 21: the digits of \<open>s\<close> and \<open>n - k\<close> zeros when \<open>k \<le> n\<close>; the digits
  with a point after the first \<open>n\<close> of them when \<open>0 < n\<close>; \<^verbatim>\<open>0.\<close>, \<open>-n\<close> zeros
  and the digits otherwise. Outside that range: the first digit, a point and the other
  digits if there are any, then \<^verbatim>\<open>e\<close>, the sign and the decimal digits of
  \<open>n - 1\<close>.
\<close>

definition positiveToString :: "nat \<Rightarrow> int \<Rightarrow> string" where
  "positiveToString s n =
     (let digits = natToString s; k = int (length digits)
      in if k \<le> n \<and> n \<le> 21 then digits @ replicate (nat (n - k)) (CHR ''0'')
         else if 0 < n \<and> n \<le> 21 then take (nat n) digits @ ''.'' @ drop (nat n) digits
         else if - 6 < n \<and> n \<le> 0 then ''0.'' @ replicate (nat (- n)) (CHR ''0'') @ digits
         else (let exponent = (if n < 0 then CHR ''-'' else CHR ''+'') # natToString (nat \<bar>n - 1\<bar>)
               in if k = 1 then digits @ ''e'' @ exponent
                  else take 1 digits @ ''.'' @ drop 1 digits @ ''e'' @ exponent))"

fun numberToString :: "number \<Rightarrow> string" where
  "numberToString NaN = ''NaN''"
| "numberToString Zero = ''0''"
| "numberToString (Infinity negative) = (if negative then ''-Infinity'' else ''Infinity'')"
| "numberToString (Finite negative leading final n) =
     (if negative then ''-'' else []) @ positiveToString (10 * leading + lastValue final) n"

text \<open>The text of a value that may be \<^verbatim>\<open>undefined\<close>.\<close>

fun jsToString :: "number option \<Rightarrow> string" where
  "jsToString None = ''undefined''"
| "jsToString (Some x) = numberToString x"

section \<open>Position group identifiers\<close>

text \<open>
  A position (\<^verbatim>\<open>Point\<close>) is its list of components; \<^verbatim>\<open>get(i)\<close> of a component
  that does not exist is \<^verbatim>\<open>undefined\<close>.
\<close>

type_synonym point = "number list"

definition pointGet :: "point \<Rightarrow> nat \<Rightarrow> number option" where
  "pointGet p i = (if i < length p then Some (p ! i) else None)"

definition getDrawPositionGroupId :: "point \<Rightarrow> string" where
  "getDrawPositionGroupId currentPosition =
     (let sliceNumber = pointGet currentPosition 2;
          frameNumber = (if length currentPosition = 4 then pointGet currentPosition 3 else Some Zero)
      in ''slice-'' @ jsToString sliceNumber @ ''_frame-'' @ jsToString frameNumber)"

record slicePosition =
  sliceNumber :: string
  frameNumber :: string

text \<open>
  \<open>getPositionFromGroupId\<close> returns the warnings it logs together with its result.
\<close>

definition getPositionFromGroupId :: "string \<Rightarrow> string list \<times> slicePosition" where
  "getPositionFromGroupId groupId =
     (let sepIndex = indexOf groupId ''_'';
          warnings = (if sepIndex = - 1 then [''Badly formed PositionGroupId: '' @ groupId] else [])
      in (warnings,
          \<lparr> sliceNumber = substring2 groupId 6 sepIndex,
            frameNumber = substring1 groupId (sepIndex + 7) \<rparr>))"

section \<open>Scene nodes\<close>

text \<open>
  The scene graph engine (Konva) is external. A node is modelled by the capabilities
  the controller uses: its internal identity \<open>konvaId\<close> (Konva's \<^verbatim>\<open>_id\<close>, by which a
  reference to a node is told from another), its \<^verbatim>\<open>id()\<close> and \<^verbatim>\<open>name()\<close>, its
  \<^verbatim>\<open>className\<close> and \<^verbatim>\<open>nodeType\<close>, the attributes \<^verbatim>\<open>visible\<close>,
  \<^verbatim>\<open>closed\<close>, \<^verbatim>\<open>stroke\<close>,
  \<^verbatim>\<open>fill\<close>, \<^verbatim>\<open>shadowColor\<close>, \<^verbatim>\<open>text\<close>, the side-channel field \<^verbatim>\<open>meta\<close>, and
  its ordered children. A scene is a tree: a node has one parent, which is the node
  whose children hold it.
\<close>

record meta =
  textExpr :: string
  quantification :: "(string \<times> string) list"

record attrs =
  konvaId :: nat
  nid :: string
  nname :: string
  className :: string
  nodeType :: string
  visible :: bool
  closed :: bool
  stroke :: "string option"
  fill :: "string option"
  shadowColor :: "string option"
  ntext :: string
  nmeta :: "meta option"

datatype node = Node (attrs: attrs) (kids: "node list")

subsection \<open>Node predicates\<close>

definition isNodeNameShape :: "node \<Rightarrow> bool" where
  "isNodeNameShape n = (nname (attrs n) = ''shape'')"

definition isNodeNameShapeExtra :: "node \<Rightarrow> bool" where
  "isNodeNameShapeExtra n = startsWith (nname (attrs n)) ''shape-''"

definition isNodeNameLabel :: "node \<Rightarrow> bool" where
  "isNodeNameLabel n = (nname (attrs n) = ''label'')"

definition isPositionNode :: "node \<Rightarrow> bool" where
  "isPositionNode n = (nname (attrs n) = ''position-group'')"

definition isNodeWithId :: "string \<Rightarrow> node \<Rightarrow> bool" where
  "isNodeWithId i n = (nid (attrs n) = i)"

definition canNodeChangeColour :: "node \<Rightarrow> bool" where
  "canNodeChangeColour n = (nname (attrs n) \<noteq> ''anchor'' \<and> nname (attrs n) \<noteq> ''label'')"

subsection \<open>Container operations\<close>

text \<open>\<^verbatim>\<open>node.getChildren(filter)\<close>: the children that pass the filter, in order.\<close>

definition getChildren :: "(node \<Rightarrow> bool) \<Rightarrow> node \<Rightarrow> node list" where
  "getChildren p n = filter p (kids n)"

text \<open>\<^verbatim>\<open>container.add(child)\<close> for a child that has no parent: appended last.\<close>

definition addChild :: "node \<Rightarrow> node \<Rightarrow> node" where
  "addChild child n = Node (attrs n) (kids n @ [child])"

definition setVisible :: "bool \<Rightarrow> node \<Rightarrow> node" where
  "setVisible v n = Node ((attrs n)\<lparr>visible := v\<rparr>) (kids n)"

section \<open>The draw controller\<close>

text \<open>
  The controller's state: the layer it owns, the current position group id
  (\<^verbatim>\<open>null\<close> until the first activation), Konva's counter of node identities, the
  warnings logged, the number of redraws requested with \<^verbatim>\<open>draw()\<close>, and the events
  handed to the command callbacks.
\<close>

datatype event =
  CommandCallback string string
| ExecutedCallback string

record controller =
  konvaLayer :: node
  currentPosGroupId :: "string option"
  idCounter :: nat
  warnings :: "string list"
  redraws :: nat
  events :: "event list"

text \<open>
  \<^verbatim>\<open>new Konva.Group()\<close>: a node with Konva's default attributes and the next identity.
  Setting the id to \<^verbatim>\<open>null\<close> leaves the default, the empty string.
\<close>

definition newGroup :: "nat \<Rightarrow> string \<Rightarrow> string \<Rightarrow> bool \<Rightarrow> node" where
  "newGroup k i nm v =
     Node \<lparr> konvaId = k, nid = i, nname = nm, className = ''Group'', nodeType = ''Group'',
            visible = v,
            closed = False, stroke = None, fill = None, shadowColor = None,
            ntext = [], nmeta = None \<rparr> []"

definition idOrDefault :: "string option \<Rightarrow> string" where
  "idOrDefault k = (case k of None \<Rightarrow> [] | Some i \<Rightarrow> i)"

definition getCurrentPosGroup :: "controller \<Rightarrow> node option \<times> controller" where
  "getCurrentPosGroup c =
     (let posGroups = getChildren (\<lambda>n. Some (nid (attrs n)) = currentPosGroupId c) (konvaLayer c)
      in if length posGroups = 1 then (nth0 posGroups, c)
         else if length posGroups = 0 then
           (let posGroup = newGroup (idCounter c) (idOrDefault (currentPosGroupId c))
                             ''position-group'' True
            in (Some posGroup,
                c\<lparr>konvaLayer := addChild posGroup (konvaLayer c), idCounter := idCounter c + 1\<rparr>))
         else (None, c\<lparr>warnings := warnings c @ [''Unexpected number of draw position groups.'']\<rparr>))"



text \<open>
  \<open>activateDrawLayer\<close>: the external \<^verbatim>\<open>index.toStringId(dims)\<close> is the parameter
  \<open>toStringId\<close>; the index is the list of its values. The loop assigns the
  \<^verbatim>\<open>visible\<close> attribute of every child selected by \<open>isPositionNode\<close> through its
  reference, so it rewrites those children in place.
\<close>

definition activateGroup :: "string \<Rightarrow> node \<Rightarrow> node" where
  "activateGroup key n = (if isPositionNode n then setVisible (nid (attrs n) = key) n else n)"

definition activateDrawLayer ::
  "(int list \<Rightarrow> nat list \<Rightarrow> string) \<Rightarrow> int list \<Rightarrow> nat \<Rightarrow> controller \<Rightarrow> controller" where
  "activateDrawLayer toStringId index scrollIndex c =
     (let dims = scrollIndex # [3..<length index];
          key = toStringId index dims;
          layer = konvaLayer c
      in c\<lparr>currentPosGroupId := Some key,
           konvaLayer := Node (attrs layer) (map (activateGroup key) (kids layer)),
           redraws := redraws c + 1\<rparr>)"

subsection \<open>Display details\<close>

record displayDetails =
  detailsId :: string
  detailsPosition :: string
  detailsType :: string
  detailsColor :: "string option"
  detailsMeta :: "meta option"

text \<open>
  The type of one annotation group, lines 263 to 282. \<open>shape\<close> is the first child
  named \<^verbatim>\<open>shape\<close> and \<open>grp\<close> the annotation group \<^verbatim>\<open>collec[i]\<close>.
\<close>

definition drawType :: "node \<Rightarrow> node \<Rightarrow> string" where
  "drawType grp shape =
     (let type0 = className (attrs shape);
          type1 =
            (if type0 = ''Line'' then
               (let shapeExtrakids = getChildren isNodeNameShapeExtra grp
                in if closed (attrs shape) then ''Roi''
                   else if length shapeExtrakids \<noteq> 0 then
                     (let extraName0 = nname (attrs (hd shapeExtrakids))
                      in if indexOf extraName0 ''triangle'' \<noteq> - 1 then ''Arrow''
                         else if indexOf extraName0 ''arc'' \<noteq> - 1 then ''Protractor''
                         else ''Ruler'')
                   else type0)
             else type0)
      in if type1 = ''Rect'' then ''Rectangle'' else type1)"

text \<open>
  One pass of the inner loop. Reading a property of \<^verbatim>\<open>undefined\<close> (no shape, no
  label, a label without children) throws a \<open>TypeError\<close>. \<open>position\<close> is the text of
  the external \<^verbatim>\<open>getIndexFromStringId(groups[j].id()).toString()\<close>.
\<close>

definition drawDisplayDetail :: "string \<Rightarrow> node \<Rightarrow> error + displayDetails" where
  "drawDisplayDetail position grp =
     (let shape = nth0 (getChildren isNodeNameShape grp);
          label = nth0 (getChildren isNodeNameLabel grp)
      in case label of
           None \<Rightarrow> Inl TypeError
         | Some l \<Rightarrow>
             (case shape of
                None \<Rightarrow> Inl TypeError
              | Some s \<Rightarrow>
                  (case nth0 (kids l) of
                     None \<Rightarrow> Inl TypeError
                   | Some t \<Rightarrow>
                       Inr \<lparr> detailsId = nid (attrs grp), detailsPosition = position,
                             detailsType = drawType grp s, detailsColor = stroke (attrs s),
                             detailsMeta = nmeta (attrs t) \<rparr>)))"

fun displayCollec ::
  "string \<Rightarrow> node list \<Rightarrow> displayDetails list \<Rightarrow> controller
     \<Rightarrow> (error + displayDetails list) \<times> controller" where
  "displayCollec position [] lst c = (Inr lst, c)"
| "displayCollec position (grp # collec) lst c =
     (case drawDisplayDetail position grp of
        Inl e \<Rightarrow> (Inl e, c)
      | Inr d \<Rightarrow> displayCollec position collec (lst @ [d]) c)"

fun displayGroups ::
  "(string \<Rightarrow> string) \<Rightarrow> node list \<Rightarrow> displayDetails list \<Rightarrow> controller
     \<Rightarrow> (error + displayDetails list) \<times> controller" where
  "displayGroups indexText [] lst c = (Inr lst, c)"
| "displayGroups indexText (g # groups) lst c =
     (case displayCollec (indexText (nid (attrs g))) (kids g) lst c of
        (Inl e, c') \<Rightarrow> (Inl e, c')
      | (Inr lst', c') \<Rightarrow> displayGroups indexText groups lst' c')"

definition getDrawDisplayDetails ::
  "(string \<Rightarrow> string) \<Rightarrow> controller \<Rightarrow> (error + displayDetails list) \<times> controller" where
  "getDrawDisplayDetails indexText c = displayGroups indexText (kids (konvaLayer c)) [] c"

subsection \<open>Searching and detaching nodes\<close>

text \<open>
  \<^verbatim>\<open>container.find(selector)\<close> and \<^verbatim>\<open>container.findOne(selector)\<close> walk the
  descendants of the container, the container itself excluded, parents before their
  children. The selector \<^verbatim>\<open>.name\<close> selects a node when one of the
  whitespace-separated words of its name is \<open>name\<close>.
\<close>

fun descendants :: "node \<Rightarrow> node list" where
  "descendants (Node a ks) = concat (map (\<lambda>k. k # descendants k) ks)"

definition isSpace :: "char \<Rightarrow> bool" where
  "isSpace ch = (ch \<in> set [CHR '' '', CHR 0x09, CHR 0x0A, CHR 0x0B, CHR 0x0C, CHR 0x0D])"

fun splitNames :: "string \<Rightarrow> string \<Rightarrow> string list" where
  "splitNames [] w = [rev w]"
| "splitNames (ch # s) w = (if isSpace ch then rev w # splitNames s [] else splitNames s (ch # w))"

definition hasName :: "string \<Rightarrow> node \<Rightarrow> bool" where
  "hasName nm n = (nm \<noteq> [] \<and> nname (attrs n) \<noteq> [] \<and> nm \<in> set (splitNames (nname (attrs n)) []))"

definition findByName :: "string \<Rightarrow> node \<Rightarrow> node list" where
  "findByName nm n = filter (hasName nm) (descendants n)"

text \<open>
  The engine's selector matching (\<^verbatim>\<open>Node._isMatch\<close>). An empty selector matches
  nothing. Otherwise the blanks are taken out of the selector
  (\<^verbatim>\<open>selector.replace(/ /g, '')\<close>) and it is split at its commas; a node matches
  when it matches one of the parts, tried in order. A part \<^verbatim>\<open>#id\<close> compares the
  identifier, a part \<^verbatim>\<open>.name\<close> asks \<open>hasName\<close>, any other part is compared
  with the class name and with the node type. Each part is first checked by
  \<^verbatim>\<open>Util.isValidSelector\<close>, which reads the first character of the part and
  calls \<^verbatim>\<open>toUpperCase()\<close> on it: on an empty part that character is
  \<^verbatim>\<open>undefined\<close> and the call throws a \<open>TypeError\<close>. The diagnostics the engine
  prints for a part it finds invalid go to the console and are no part of the state.
\<close>

definition stripBlanks :: "string \<Rightarrow> string" where
  "stripBlanks s = filter (\<lambda>ch. ch \<noteq> CHR '' '') s"

fun splitCommas :: "string \<Rightarrow> string \<Rightarrow> string list" where
  "splitCommas [] w = [rev w]"
| "splitCommas (ch # s) w =
     (if ch = CHR '','' then rev w # splitCommas s [] else splitCommas s (ch # w))"

definition matchesSelector :: "string \<Rightarrow> node \<Rightarrow> bool" where
  "matchesSelector sel n =
     (case sel of
        [] \<Rightarrow> className (attrs n) = sel \<or> nodeType (attrs n) = sel
      | ch # rest \<Rightarrow>
          (if ch = CHR ''#'' then nid (attrs n) = rest
           else if ch = CHR ''.'' then hasName rest n
           else className (attrs n) = sel \<or> nodeType (attrs n) = sel))"

fun isMatchParts :: "string list \<Rightarrow> node \<Rightarrow> error + bool" where
  "isMatchParts [] n = Inr False"
| "isMatchParts (sel # sels) n =
     (if sel = [] then Inl TypeError
      else if matchesSelector sel n then Inr True
      else isMatchParts sels n)"

definition isMatch :: "string \<Rightarrow> node \<Rightarrow> error + bool" where
  "isMatch selector n =
     (if selector = [] then Inr False
      else isMatchParts (splitCommas (stripBlanks selector) []) n)"

text \<open>
  \<^verbatim>\<open>container.findOne(selector)\<close>: the first descendant that matches, or
  \<^verbatim>\<open>undefined\<close>; the walk stops there. \<open>selects\<close> tells the nodes that the
  selector matches.
\<close>

fun findFirst :: "(node \<Rightarrow> error + bool) \<Rightarrow> node list \<Rightarrow> error + node option" where
  "findFirst m [] = Inr None"
| "findFirst m (n # ns) =
     (case m n of
        Inl e \<Rightarrow> Inl e
      | Inr b \<Rightarrow> if b then Inr (Some n) else findFirst m ns)"

definition findOne :: "string \<Rightarrow> node \<Rightarrow> error + node option" where
  "findOne selector n = findFirst (isMatch selector) (descendants n)"

definition selects :: "string \<Rightarrow> node \<Rightarrow> bool" where
  "selects selector n = (isMatch selector n = Inr True)"


text \<open>
  \<^verbatim>\<open>node.remove()\<close> detaches the node from its parent. Inside the tree \<open>t\<close>, the node
  of identity \<open>k\<close> leaves the children of the node that holds it.
\<close>

fun removeNode :: "nat \<Rightarrow> node \<Rightarrow> node" where
  "removeNode k (Node a ks) =
     Node a (map (removeNode k) (filter (\<lambda>n. konvaId (attrs n) \<noteq> k) ks))"


subsection \<open>Store details\<close>

record storeDetails =
  storedMeta :: "meta option"

text \<open>
  The anchors found under an annotation group are removed one after the other, each
  through its own reference. They are descendants of the group, so each removal acts
  inside the group's subtree.
\<close>

definition removeAnchors :: "node \<Rightarrow> node" where
  "removeAnchors grp =
     fold (\<lambda>anchor t. removeNode (konvaId (attrs anchor)) t) (findByName ''anchor'' grp) grp"

text \<open>
  One pass of the inner loop of \<open>getDrawStoreDetails\<close>: the group after the removals,
  the details object (or the \<open>TypeError\<close> of \<^verbatim>\<open>texts[0].meta\<close> when no text was
  found) and the warnings.
\<close>

definition drawStoreDetail ::
  "node \<Rightarrow> (string \<rightharpoonup> storeDetails) \<Rightarrow> string list
     \<Rightarrow> node \<times> (error + (string \<rightharpoonup> storeDetails)) \<times> string list" where
  "drawStoreDetail grp drawingsDetails ws =
     (let grp' = removeAnchors grp;
          texts = findByName ''text'' grp';
          ws' = (if length texts \<noteq> 1
                 then ws @ [''There should not be more than one text per shape.'']
                 else ws)
      in case nth0 texts of
           None \<Rightarrow> (grp', Inl TypeError, ws')
         | Some t \<Rightarrow>
             (grp', Inr (drawingsDetails(nid (attrs grp) \<mapsto> \<lparr>storedMeta = nmeta (attrs t)\<rparr>)), ws'))"

fun storePosKids ::
  "node list \<Rightarrow> (string \<rightharpoonup> storeDetails) \<Rightarrow> string list
     \<Rightarrow> node list \<times> (error + (string \<rightharpoonup> storeDetails)) \<times> string list" where
  "storePosKids [] dd ws = ([], Inr dd, ws)"
| "storePosKids (grp # posKids) dd ws =
     (case drawStoreDetail grp dd ws of
        (grp', Inl e, ws') \<Rightarrow> (grp' # posKids, Inl e, ws')
      | (grp', Inr dd', ws') \<Rightarrow>
          (case storePosKids posKids dd' ws' of
             (posKids', r, ws'') \<Rightarrow> (grp' # posKids', r, ws'')))"

fun storePosGroups ::
  "node list \<Rightarrow> (string \<rightharpoonup> storeDetails) \<Rightarrow> string list
     \<Rightarrow> node list \<times> (error + (string \<rightharpoonup> storeDetails)) \<times> string list" where
  "storePosGroups [] dd ws = ([], Inr dd, ws)"
| "storePosGroups (g # gs) dd ws =
     (if isPositionNode g then
        (case storePosKids (kids g) dd ws of
           (posKids', Inl e, ws') \<Rightarrow> (Node (attrs g) posKids' # gs, Inl e, ws')
         | (posKids', Inr dd', ws') \<Rightarrow>
             (case storePosGroups gs dd' ws' of
                (gs', r, ws'') \<Rightarrow> (Node (attrs g) posKids' # gs', r, ws'')))
      else
        (case storePosGroups gs dd ws of
           (gs', r, ws') \<Rightarrow> (g # gs', r, ws')))"

definition getDrawStoreDetails ::
  "controller \<Rightarrow> (error + (string \<rightharpoonup> storeDetails)) \<times> controller" where
  "getDrawStoreDetails c =
     (case storePosGroups (kids (konvaLayer c)) Map.empty (warnings c) of
        (ks', r, ws') \<Rightarrow>
          (r, c\<lparr>konvaLayer := Node (attrs (konvaLayer c)) ks', warnings := ws'\<rparr>))"

subsection \<open>Updating a drawing\<close>

record drawUpdate =
  updateId :: string
  updateColor :: string
  updateMeta :: "meta option"

definition setStroke :: "string \<Rightarrow> node \<Rightarrow> node" where
  "setStroke col n = Node ((attrs n)\<lparr>stroke := Some col\<rparr>) (kids n)"

definition setFill :: "string \<Rightarrow> node \<Rightarrow> node" where
  "setFill col n = Node ((attrs n)\<lparr>fill := Some col\<rparr>) (kids n)"

definition setShadowColor :: "string \<Rightarrow> node \<Rightarrow> node" where
  "setShadowColor col n = Node ((attrs n)\<lparr>shadowColor := Some col\<rparr>) (kids n)"

definition setMeta :: "meta option \<Rightarrow> node \<Rightarrow> node" where
  "setMeta m n = Node ((attrs n)\<lparr>nmeta := m\<rparr>) (kids n)"

definition setText :: "string \<Rightarrow> node \<Rightarrow> node" where
  "setText s n = Node ((attrs n)\<lparr>ntext := s\<rparr>) (kids n)"

text \<open>Assigning through the reference \<^verbatim>\<open>arr[0]\<close> of a filtered child array.\<close>

fun mapFirst :: "('a \<Rightarrow> bool) \<Rightarrow> ('a \<Rightarrow> 'a) \<Rightarrow> 'a list \<Rightarrow> 'a list" where
  "mapFirst p f [] = []"
| "mapFirst p f (x # xs) = (if p x then f x # xs else x # mapFirst p f xs)"

text \<open>
  Assigning through the reference that \<open>findOne\<close> returned: the first descendant that
  passes \<open>p\<close>, parents before children, is rewritten where it stands.
\<close>

fun updateFirst :: "(node \<Rightarrow> bool) \<Rightarrow> (node \<Rightarrow> node) \<Rightarrow> node list \<Rightarrow> node list option" where
  "updateFirst p f [] = None"
| "updateFirst p f (Node a cs # ks) =
     (if p (Node a cs) then Some (f (Node a cs) # ks)
      else case updateFirst p f cs of
             Some cs' \<Rightarrow> Some (Node a cs' # ks)
           | None \<Rightarrow>
               (case updateFirst p f ks of
                  Some ks' \<Rightarrow> Some (Node a cs # ks')
                | None \<Rightarrow> None))"

definition updateFound :: "(node \<Rightarrow> bool) \<Rightarrow> (node \<Rightarrow> node) \<Rightarrow> node \<Rightarrow> node" where
  "updateFound p f n = (case updateFirst p f (kids n) of None \<Rightarrow> n | Some ks \<Rightarrow> Node (attrs n) ks)"

definition updateShapeExtra :: "string \<Rightarrow> node \<Rightarrow> node" where
  "updateShapeExtra col n =
     (if stroke (attrs n) \<noteq> None then setStroke col n
      else if fill (attrs n) \<noteq> None then setFill col n
      else n)"

text \<open>
  The loop over the children of the label, lines 432 to 446. The last argument is the
  \<^verbatim>\<open>visible\<close> attribute of the label, which the loop body may assign.
  \<open>replaceFlags\<close> is the external template expansion.
\<close>

fun updateLabelKids ::
  "(string \<Rightarrow> (string \<times> string) list \<Rightarrow> string) \<Rightarrow> string \<Rightarrow> drawUpdate \<Rightarrow> node list \<Rightarrow> bool
     \<Rightarrow> node list \<times> bool" where
  "updateLabelKids replaceFlags shadow d [] v = ([], v)"
| "updateLabelKids replaceFlags shadow d (kid # rest) v =
     (let kid1 = setFill (updateColor d) kid
      in if className (attrs kid1) = ''Text'' then
           (let text1 = setShadowColor shadow kid1
            in case updateMeta d of
                 None \<Rightarrow>
                   (case updateLabelKids replaceFlags shadow d rest v of
                      (rest', v') \<Rightarrow> (text1 # rest', v'))
               | Some m \<Rightarrow>
                   (let text2 = setText (replaceFlags (textExpr m) (quantification m))
                                  (setMeta (Some m) text1)
                    in case updateLabelKids replaceFlags shadow d rest (textExpr m \<noteq> []) of
                         (rest', v') \<Rightarrow> (text2 # rest', v')))
         else
           (case updateLabelKids replaceFlags shadow d rest v of
              (rest', v') \<Rightarrow> (kid1 # rest', v')))"

definition updateLabel ::
  "(string \<Rightarrow> (string \<times> string) list \<Rightarrow> string) \<Rightarrow> string \<Rightarrow> drawUpdate \<Rightarrow> node \<Rightarrow> node" where
  "updateLabel replaceFlags shadow d label =
     (case updateLabelKids replaceFlags shadow d (kids label) (visible (attrs label)) of
        (ks, v) \<Rightarrow> Node ((attrs label)\<lparr>visible := v\<rparr>) ks)"

text \<open>
  \<open>updateDraw\<close> looks the group up with the selector \<^verbatim>\<open>'#' + drawDetails.id\<close>.
  The body of \<open>updateDraw\<close> on the group found, lines 413 to 446. A group without a
  label child throws at \<^verbatim>\<open>label.getChildren()\<close>, after the shapes were recoloured.
  \<open>getShadowColour\<close> is external.
\<close>

definition updateDrawGroup ::
  "(string \<Rightarrow> string) \<Rightarrow> (string \<Rightarrow> (string \<times> string) list \<Rightarrow> string) \<Rightarrow> drawUpdate \<Rightarrow> node
     \<Rightarrow> (error + unit) \<times> node" where
  "updateDrawGroup getShadowColour replaceFlags d grp =
     (let ks1 = map (\<lambda>n. if isNodeNameShape n then setStroke (updateColor d) n else n) (kids grp);
          ks2 = map (\<lambda>n. if isNodeNameShapeExtra n then updateShapeExtra (updateColor d) n else n) ks1
      in case nth0 (filter isNodeNameLabel ks2) of
           None \<Rightarrow> (Inl TypeError, Node (attrs grp) ks2)
         | Some label \<Rightarrow>
             (Inr (),
              Node (attrs grp)
                (mapFirst isNodeNameLabel
                   (updateLabel replaceFlags (getShadowColour (updateColor d)) d) ks2)))"

definition updateDraw ::
  "(string \<Rightarrow> string) \<Rightarrow> (string \<Rightarrow> (string \<times> string) list \<Rightarrow> string) \<Rightarrow> drawUpdate \<Rightarrow> controller
     \<Rightarrow> (error + unit) \<times> controller" where
  "updateDraw getShadowColour replaceFlags d c =
     (case findOne (CHR ''#'' # updateId d) (konvaLayer c) of
        Inl e \<Rightarrow> (Inl e, c)
      | Inr None \<Rightarrow>
          (Inr (),
           c\<lparr>warnings := warnings c @ [''[updateDraw] Cannot find group with id: '' @ updateId d]\<rparr>)
      | Inr (Some grp) \<Rightarrow>
          (let layer' =
                 updateFound (selects (CHR ''#'' # updateId d))
                   (\<lambda>g. snd (updateDrawGroup getShadowColour replaceFlags d g)) (konvaLayer c)
           in case fst (updateDrawGroup getShadowColour replaceFlags d grp) of
                Inl e \<Rightarrow> (Inl e, c\<lparr>konvaLayer := layer'\<rparr>)
              | Inr u \<Rightarrow> (Inr (), c\<lparr>konvaLayer := layer', redraws := redraws c + 1\<rparr>)))"

subsection \<open>Mutation commands\<close>

text \<open>
  Modelled from the spec: the classes \<^verbatim>\<open>DeleteGroupCommand\<close> and
  \<^verbatim>\<open>DrawGroupCommand\<close> of \<^verbatim>\<open>tools/drawCommands\<close> are not among the sources. The
  spec, section 4.3: the delete command's \<^verbatim>\<open>execute()\<close> ``detaches group from the
  tree; invokes onExecute(self)''; the create command's \<^verbatim>\<open>execute()\<close> ``re-parents
  group under its resolved Position Group (creating the group if absent via section
  4.2), making it visible per the active-group state; invokes onExecute(self)''; both
  request a redraw of the layer, and both fail with \<open>InvalidOperation\<close> when executed a
  second time with no undo between. A group's own \<^verbatim>\<open>visible\<close> attribute is not
  written: section 4.2 has the descendants inherit the visibility of their position
  group. The callbacks the controller injects are observers, recorded in \<open>events\<close>.
\<close>

record deleteGroupCommand =
  deleteName :: string
  deleteGroup :: node
  deleteExecuted :: bool

definition newDeleteGroupCommand :: "node \<Rightarrow> string \<Rightarrow> deleteGroupCommand" where
  "newDeleteGroupCommand grp displayName =
     \<lparr> deleteName = displayName, deleteGroup = grp, deleteExecuted = False \<rparr>"

text \<open>
  Modelled from the spec: \<^verbatim>\<open>DeleteGroupCommand.execute()\<close>, which is not among the
  sources. It detaches the group, requests a redraw and calls \<^verbatim>\<open>onExecute\<close>.
\<close>

definition deleteGroupCommandExecute ::
  "deleteGroupCommand \<Rightarrow> controller \<Rightarrow> (error + deleteGroupCommand) \<times> controller" where
  "deleteGroupCommandExecute cmd c =
     (if deleteExecuted cmd then (Inl InvalidOperation, c)
      else
        (Inr (cmd\<lparr>deleteExecuted := True\<rparr>),
         c\<lparr>konvaLayer := removeNode (konvaId (attrs (deleteGroup cmd))) (konvaLayer c),
           redraws := redraws c + 1,
           events := events c @ [CommandCallback (deleteName cmd) (nid (attrs (deleteGroup cmd)))]\<rparr>))"






subsection \<open>Deleting drawings\<close>

text \<open>
  \<open>getShapeDisplayName\<close> is external; it is given the first child named
  \<^verbatim>\<open>shape\<close>, or \<^verbatim>\<open>undefined\<close>.
\<close>

definition deleteDrawGroup ::
  "(node option \<Rightarrow> string) \<Rightarrow> node \<Rightarrow> controller \<Rightarrow> (error + unit) \<times> controller" where
  "deleteDrawGroup getShapeDisplayName grp c =
     (let shape = nth0 (getChildren isNodeNameShape grp);
          shapeDisplayName = getShapeDisplayName shape;
          delcmd = newDeleteGroupCommand grp shapeDisplayName
      in case deleteGroupCommandExecute delcmd c of
           (Inl e, c') \<Rightarrow> (Inl e, c')
         | (Inr cmd', c') \<Rightarrow>
             (Inr (), c'\<lparr>events := events c' @ [ExecutedCallback (deleteName cmd')]\<rparr>))"


lemma removeNode_first_child:
  "length (kids (removeNode (konvaId (attrs g)) (Node a (g # gs)))) \<le> length gs"
  by (simp add: le_trans[OF length_filter_le])

lemma deleteDrawGroup_shrinks:
  assumes "kids (konvaLayer c) = g # gs"
    and "deleteDrawGroup f g c = (r, c')"
  shows "length (kids (konvaLayer c')) \<le> length gs"
proof -
  obtain a where layer: "konvaLayer c = Node a (g # gs)"
    using assms(1) by (cases "konvaLayer c") simp
  show ?thesis
    using assms(2) removeNode_first_child[of g a gs]
    by (auto simp: deleteDrawGroup_def deleteGroupCommandExecute_def
        newDeleteGroupCommand_def layer Let_def)
qed

text \<open>
  \<open>deleteDraws\<close>: \<^verbatim>\<open>groups\<close> is the layer's own child array, so
  \<^verbatim>\<open>groups.length\<close> and \<^verbatim>\<open>groups[0]\<close> read the children the layer has at that
  moment.
\<close>

function deleteDraws ::
  "(node option \<Rightarrow> string) \<Rightarrow> controller \<Rightarrow> (error + unit) \<times> controller" where
  "deleteDraws getShapeDisplayName c =
     (case kids (konvaLayer c) of
        [] \<Rightarrow> (Inr (), c)
      | g # gs \<Rightarrow>
          (case deleteDrawGroup getShapeDisplayName g c of
             (Inl e, c') \<Rightarrow> (Inl e, c')
           | (Inr u, c') \<Rightarrow> deleteDraws getShapeDisplayName c'))"
  by pat_completeness auto
termination
  apply (relation "measure (\<lambda>(f, c). length (kids (konvaLayer c)))")
   apply simp
  subgoal for f c g gs x c' u
    using deleteDrawGroup_shrinks[of c g gs f "Inr u" c'] by simp
  done

declare deleteDraws.simps [simp del]


subsection \<open>Loading a scene\<close>

text \<open>
  \<^verbatim>\<open>label.getText()\<close> of the engine is \<^verbatim>\<open>label.find('Text')[0]\<close>: the first
  descendant whose class is \<^verbatim>\<open>Text\<close>.
\<close>

definition isText :: "node \<Rightarrow> bool" where
  "isText n = (className (attrs n) = ''Text'')"









section \<open>Example scenes\<close>

text \<open>
  The node type of the engine's classes: labels are groups, a layer is a layer, and
  the other classes used here are shapes.
\<close>

definition nodeTypeOf :: "string \<Rightarrow> string" where
  "nodeTypeOf cls =
     (if cls = ''Group'' \<or> cls = ''Label'' then ''Group''
      else if cls = ''Layer'' then ''Layer''
      else ''Shape'')"

definition plainNode :: "nat \<Rightarrow> string \<Rightarrow> string \<Rightarrow> string \<Rightarrow> node list \<Rightarrow> node" where
  "plainNode k i nm cls ks =
     Node \<lparr> konvaId = k, nid = i, nname = nm, className = cls, nodeType = nodeTypeOf cls,
            visible = True,
            closed = False, stroke = None, fill = None, shadowColor = None,
            ntext = [], nmeta = None \<rparr> ks"

definition controllerOf :: "node \<Rightarrow> string option \<Rightarrow> controller" where
  "controllerOf layer key =
     \<lparr> konvaLayer = layer, currentPosGroupId = key, idCounter = 100,
       warnings = [], redraws = 0, events = [] \<rparr>"

text \<open>An empty layer, active key \<open>#2-3\<close>.\<close>

definition emptyController :: controller where
  "emptyController = controllerOf (plainNode 0 [] [] ''Layer'' []) (Some ''#2-3'')"

text \<open>A layer that holds two position groups with the identifier \<open>#2-3\<close>.\<close>

definition duplicateController :: controller where
  "duplicateController =
     controllerOf
       (plainNode 0 [] [] ''Layer''
          [plainNode 1 ''#2-3'' ''position-group'' ''Group'' [],
           plainNode 2 ''#2-3'' ''position-group'' ''Group'' []])
       (Some ''#2-3'')"

text \<open>A layer whose only child has the identifier \<open>#2-3\<close> and is no position group.\<close>

definition strayController :: controller where
  "strayController =
     controllerOf
       (plainNode 0 [] [] ''Layer'' [plainNode 1 ''#2-3'' ''line-group'' ''Group'' []])
       (Some ''#2-3'')"

text \<open>A layer with the position groups \<open>#2-3\<close> and \<open>#2-4\<close>, both visible.\<close>

definition twoGroupsController :: controller where
  "twoGroupsController =
     controllerOf
       (plainNode 0 [] [] ''Layer''
          [plainNode 1 ''#2-3'' ''position-group'' ''Group'' [],
           plainNode 2 ''#2-4'' ''position-group'' ''Group'' []])
       None"

text \<open>
  A stand-in for \<^verbatim>\<open>index.toStringId(dims)\<close>: \<open>#d-v\<close> for each dimension \<open>d\<close> of
  \<open>dims\<close> with value \<open>v\<close>, joined with \<open>_\<close>. The values of an index are integers.
\<close>

definition intToString :: "int \<Rightarrow> string" where
  "intToString i = (if i < 0 then CHR ''-'' # natToString (nat (- i)) else natToString (nat i))"

fun joinIds :: "string list \<Rightarrow> string" where
  "joinIds [] = []"
| "joinIds [x] = x"
| "joinIds (x # y # ys) = x @ CHR ''_'' # joinIds (y # ys)"

definition exampleToStringId :: "int list \<Rightarrow> nat list \<Rightarrow> string" where
  "exampleToStringId index dims =
     joinIds (map (\<lambda>d. CHR ''#'' # natToString d @ CHR ''-'' #
                     (if d < length index then intToString (index ! d) else ''undefined'')) dims)"

text \<open>
  A scene as the drawing tools build it. Position group \<open>#2-3\<close> holds a closed
  polyline \<open>g1\<close> with two anchors and an arrow \<open>g2\<close> with its triangle and one anchor;
  position group \<open>#2-4\<close> holds a rectangle \<open>g3\<close>. Each label holds its text first.
\<close>

definition shapeNode :: "nat \<Rightarrow> string \<Rightarrow> bool \<Rightarrow> string \<Rightarrow> node" where
  "shapeNode k cls isClosed col =
     Node ((attrs (plainNode k [] ''shape'' cls []))\<lparr>closed := isClosed, stroke := Some col\<rparr>) []"

definition textNode :: "nat \<Rightarrow> meta \<Rightarrow> string \<Rightarrow> node" where
  "textNode k m s =
     Node ((attrs (plainNode k [] ''text'' ''Text'' []))
             \<lparr>fill := Some ''yellow'', ntext := s, nmeta := Some m\<rparr>) []"

definition labelNode :: "nat \<Rightarrow> node list \<Rightarrow> node" where
  "labelNode k ks = plainNode k [] ''label'' ''Label'' ks"

definition anchorNode :: "nat \<Rightarrow> node" where
  "anchorNode k = plainNode k [] ''anchor'' ''Ellipse'' []"

definition lengthMeta :: meta where
  "lengthMeta = \<lparr> textExpr = ''{length}'', quantification = [(''length'', ''12.5 mm'')] \<rparr>"

definition emptyMeta :: meta where
  "emptyMeta = \<lparr> textExpr = [], quantification = [] \<rparr>"

definition roiGroup :: node where
  "roiGroup =
     plainNode 10 ''g1'' ''roi-group'' ''Group''
       [shapeNode 11 ''Line'' True ''yellow'',
        labelNode 12 [textNode 13 emptyMeta [], plainNode 14 [] [] ''Tag'' []],
        anchorNode 15, anchorNode 16]"

definition arrowLabel :: node where
  "arrowLabel = labelNode 23 [textNode 24 lengthMeta ''12.5 mm'', plainNode 26 [] [] ''Tag'' []]"

definition arrowGroup :: node where
  "arrowGroup =
     plainNode 20 ''g2'' ''line-group'' ''Group''
       [shapeNode 21 ''Line'' False ''yellow'',
        plainNode 22 [] ''shape-triangle-0'' ''RegularPolygon'' [],
        arrowLabel,
        anchorNode 25]"

definition rectangleGroup :: node where
  "rectangleGroup =
     plainNode 30 ''g3'' ''rectangle-group'' ''Group''
       [shapeNode 31 ''Rect'' False ''red'',
        labelNode 32 [textNode 33 emptyMeta [], plainNode 34 [] [] ''Tag'' []]]"

definition sceneLayer :: node where
  "sceneLayer =
     plainNode 0 [] [] ''Layer''
       [plainNode 1 ''#2-3'' ''position-group'' ''Group'' [roiGroup, arrowGroup],
        Node ((attrs (plainNode 2 ''#2-4'' ''position-group'' ''Group'' []))\<lparr>visible := False\<rparr>)
          [rectangleGroup]]"

definition sceneController :: controller where
  "sceneController = controllerOf sceneLayer (Some ''#2-3'')"

text \<open>A position group whose annotation group has neither shape nor label.\<close>

definition bareController :: controller where
  "bareController =
     controllerOf
       (plainNode 0 [] [] ''Layer''
          [plainNode 1 ''#2-3'' ''position-group'' ''Group''
             [plainNode 40 ''g9'' ''line-group'' ''Group'' []]])
       (Some ''#2-3'')"



text \<open>
  An arrow whose identifier holds a blank, and another whose identifier holds a comma,
  under the position group \<open>#2-3\<close>.
\<close>

definition spacedLabel :: node where
  "spacedLabel = labelNode 72 [textNode 73 lengthMeta ''12.5 mm'']"

definition spacedGroup :: node where
  "spacedGroup =
     plainNode 70 ''g 1'' ''line-group'' ''Group'' [shapeNode 71 ''Line'' False ''yellow'', spacedLabel]"

definition commaLabel :: node where
  "commaLabel = labelNode 77 [textNode 78 lengthMeta ''12.5 mm'']"

definition commaGroup :: node where
  "commaGroup =
     plainNode 75 ''g,1'' ''line-group'' ''Group'' [shapeNode 76 ''Line'' False ''yellow'', commaLabel]"

definition spacedController :: controller where
  "spacedController =
     controllerOf
       (plainNode 0 [] [] ''Layer''
          [plainNode 1 ''#2-3'' ''position-group'' ''Group'' [spacedGroup, commaGroup]])
       (Some ''#2-3'')"

text \<open>
  Three layers with anchors out of the place the drawing tools give them: an anchor
  under a child of the layer that is no position group; an annotation group that is
  itself named \<^verbatim>\<open>anchor\<close>; and an anchor that holds a child.
\<close>

definition strayAnchorController :: controller where
  "strayAnchorController =
     controllerOf
       (plainNode 0 [] [] ''Layer''
          [plainNode 1 ''#2-3'' ''line-group'' ''Group''
             [plainNode 40 ''g9'' ''line-group'' ''Group'' [anchorNode 70]]])
       (Some ''#2-3'')"

definition anchorGroupController :: controller where
  "anchorGroupController =
     controllerOf
       (plainNode 0 [] [] ''Layer''
          [plainNode 1 ''#2-3'' ''position-group'' ''Group''
             [plainNode 45 ''g4'' ''anchor'' ''Group'' [labelNode 46 [textNode 47 emptyMeta []]]]])
       (Some ''#2-3'')"

definition gripNode :: node where
  "gripNode = plainNode 56 [] ''grip'' ''Circle'' []"

definition nestedAnchorController :: controller where
  "nestedAnchorController =
     controllerOf
       (plainNode 0 [] [] ''Layer''
          [plainNode 1 ''#2-3'' ''position-group'' ''Group''
             [plainNode 50 ''g5'' ''line-group'' ''Group''
                [shapeNode 51 ''Line'' False ''yellow'',
                 labelNode 52 [textNode 53 emptyMeta []],
                 plainNode 55 [] ''anchor'' ''Group'' [gripNode]]]])
       (Some ''#2-3'')"

section \<open>The claims' own words\<close>

text \<open>
  The classification of claim C5, in the claim's words: \<open>shape\<close> is the primary shape
  and \<open>decorations\<close> are the auxiliary decorations of an annotation group, in order.
  \<open>containsText s sub\<close>: \<open>sub\<close> occurs in \<open>s\<close> at some offset.
\<close>

definition containsText :: "string \<Rightarrow> string \<Rightarrow> bool" where
  "containsText s sub = list_ex (\<lambda>i. take (length sub) (drop i s) = sub) [0..<Suc (length s)]"

definition specType :: "node \<Rightarrow> node list \<Rightarrow> string" where
  "specType shape decorations =
     (if className (attrs shape) = ''Line'' then
        (if closed (attrs shape) then ''Roi''
         else case decorations of
                [] \<Rightarrow> ''Line''
              | d # ds \<Rightarrow>
                  (if containsText (nname (attrs d)) ''triangle'' then ''Arrow''
                   else if containsText (nname (attrs d)) ''arc'' then ''Protractor''
                   else ''Ruler''))
      else if className (attrs shape) = ''Rect'' then ''Rectangle''
      else className (attrs shape))"

text \<open>
  The type the claim gives an annotation group: that of its first child named
  \<^verbatim>\<open>shape\<close> with its children named \<^verbatim>\<open>shape-...\<close>; none for a group without a
  shape.
\<close>

definition specGroupType :: "node \<Rightarrow> string option" where
  "specGroupType grp =
     map_option (\<lambda>shape. specType shape (getChildren isNodeNameShapeExtra grp))
       (nth0 (getChildren isNodeNameShape grp))"

text \<open>
  An annotation group that \<open>getDrawDisplayDetails\<close> can read: it has a shape, and a
  label that has a child.
\<close>

definition drawable :: "node \<Rightarrow> bool" where
  "drawable grp =
     (case nth0 (getChildren isNodeNameLabel grp) of
        None \<Rightarrow> False
      | Some label \<Rightarrow> getChildren isNodeNameShape grp \<noteq> [] \<and> kids label \<noteq> [])"

text \<open>The groups below the children of the layer, in the order of the two loops.\<close>

definition annotationGroups :: "node \<Rightarrow> node list" where
  "annotationGroups layer = concat (map kids (kids layer))"


text \<open>
  Claim C6 in its own words: the slice of a position is its component at index 2, and
  its frame the component at index 3 when it has four components, 0 otherwise.
  \<open>numberOfNat\<close> is the number that a natural number is: its digits without the zeros
  it ends with, and the count of all its digits.
\<close>

definition sliceOf :: "point \<Rightarrow> number option" where
  "sliceOf p = (if 2 < length p then Some (p ! 2) else None)"

definition frameOf :: "point \<Rightarrow> number option" where
  "frameOf p = (if length p = 4 then Some (p ! 3) else Some Zero)"

fun trailingZeros :: "nat \<Rightarrow> nat" where
  "trailingZeros i = (if 0 < i \<and> i mod 10 = 0 then Suc (trailingZeros (i div 10)) else 0)"

declare trailingZeros.simps [simp del]

definition lastDigitOf :: "nat \<Rightarrow> lastDigit" where
  "lastDigitOf r =
     (if r = 1 then L1 else if r = 2 then L2 else if r = 3 then L3 else if r = 4 then L4
      else if r = 5 then L5 else if r = 6 then L6 else if r = 7 then L7 else if r = 8 then L8
      else L9)"

definition numberOfNat :: "nat \<Rightarrow> number" where
  "numberOfNat i =
     (if i = 0 then Zero
      else (let s = i div 10 ^ trailingZeros i
            in Finite False (s div 10) (lastDigitOf (s mod 10)) (int (length (natToString i)))))"

text \<open>
  The characters of a decimal numeral; the digits before the exponent of a number
  printed with one; the integers \<open>s\<close> that are as short as possible.
\<close>

abbreviation (input) decimal :: "char \<Rightarrow> bool" where
  "decimal ch \<equiv> ch \<in> set ''0123456789''"

definition mantissa :: "string \<Rightarrow> string" where
  "mantissa digits = (if length digits = 1 then digits else take 1 digits @ ''.'' @ drop 1 digits)"

definition shortest :: "nat \<Rightarrow> bool" where
  "shortest s = (0 < s \<and> s mod 10 \<noteq> 0)"

text \<open>
  The direct children of claims C1 and C2: position groups with a given identifier.
\<close>

definition isPositionWithId :: "string \<Rightarrow> node \<Rightarrow> bool" where
  "isPositionWithId key n = (isPositionNode n \<and> isNodeWithId key n)"

text \<open>
  The group of claim C7 that exists under an identifier: the first node below the
  layer that carries it, parents before children.
\<close>

definition groupWithId :: "string \<Rightarrow> node \<Rightarrow> node option" where
  "groupWithId i layer = List.find (isNodeWithId i) (descendants layer)"






























section \<open>Properties of the position group identifiers\<close>

lemma below_ten: "d < 10 \<Longrightarrow> d = 0 \<or> d = 1 \<or> d = 2 \<or> d = 3 \<or> d = 4 \<or> d = 5 \<or> d = 6 \<or> d = 7 \<or> d = 8 \<or> d = (9::nat)"
  by arith

lemma digitChar_decimal: "d < 10 \<Longrightarrow> decimal (digitChar d)"
  using below_ten[of d] by (auto simp: digitChar_def)

lemma digitChar_zero: "d < 10 \<Longrightarrow> (digitChar d = CHR ''0'') = (d = 0)"
  using below_ten[of d] by (auto simp: digitChar_def)

lemma digitChar_inj: "d < 10 \<Longrightarrow> e < 10 \<Longrightarrow> digitChar d = digitChar e \<Longrightarrow> d = e"
  using below_ten[of d] below_ten[of e] by (auto simp: digitChar_def)

lemma natToString_small: "n < 10 \<Longrightarrow> natToString n = [digitChar n]"
  by (subst natToString.simps) simp

lemma natToString_large:
  "\<not> n < 10 \<Longrightarrow> natToString n = natToString (n div 10) @ [digitChar (n mod 10)]"
  by (subst natToString.simps) simp

lemma natToString_nonempty: "natToString n \<noteq> []"
  by (cases "n < 10") (simp_all add: natToString_small natToString_large)

lemma natToString_decimal: "ch \<in> set (natToString n) \<Longrightarrow> decimal ch"
proof (induction n rule: natToString.induct)
  case (1 n)
  show ?case
  proof (cases "n < 10")
    case True
    with "1.prems" digitChar_decimal[of n] show ?thesis
      by (simp add: natToString_small)
  next
    case False
    have "n mod 10 < 10" by simp
    from digitChar_decimal[OF this] False "1.IH" "1.prems" show ?thesis
      by (auto simp: natToString_large)
  qed
qed

lemma natToString_last: "last (natToString n) = digitChar (n mod 10)"
  by (cases "n < 10") (simp_all add: natToString_small natToString_large)

lemma natToString_hd: "0 < n \<Longrightarrow> hd (natToString n) \<noteq> CHR ''0''"
proof (induction n rule: natToString.induct)
  case (1 n)
  show ?case
  proof (cases "n < 10")
    case True
    with "1.prems" show ?thesis
      by (simp add: natToString_small digitChar_zero)
  next
    case False
    then have "0 < n div 10" by simp
    with "1.IH" False have "hd (natToString (n div 10)) \<noteq> CHR ''0''" by simp
    with False show ?thesis
      by (simp add: natToString_large hd_append natToString_nonempty)
  qed
qed

lemma natToString_inj: "natToString m = natToString n \<Longrightarrow> m = n"
proof (induction m arbitrary: n rule: natToString.induct)
  case (1 m)
  show ?case
  proof (cases "m < 10")
    case m: True
    show ?thesis
    proof (cases "n < 10")
      case True
      with m "1.prems" show ?thesis
        by (simp add: natToString_small digitChar_inj)
    next
      case False
      with m "1.prems" natToString_nonempty[of "n div 10"] show ?thesis
        by (simp add: natToString_small natToString_large)
    qed
  next
    case m: False
    show ?thesis
    proof (cases "n < 10")
      case True
      with m "1.prems" natToString_nonempty[of "m div 10"] show ?thesis
        by (simp add: natToString_small natToString_large)
    next
      case False
      with m "1.prems" have eq: "natToString (m div 10) = natToString (n div 10)"
        "digitChar (m mod 10) = digitChar (n mod 10)"
        by (simp_all add: natToString_large)
      from "1.IH"[OF m eq(1)] have d: "m div 10 = n div 10" .
      have "m mod 10 < 10" "n mod 10 < 10" by simp_all
      from digitChar_inj[OF this eq(2)] have "m mod 10 = n mod 10" .
      with d show ?thesis
        by (metis div_mult_mod_eq)
    qed
  qed
qed

lemma replicate_prefix_inj:
  assumes "xs \<noteq> []" "ys \<noteq> []" "hd xs \<noteq> z" "hd ys \<noteq> z"
    and "replicate m z @ xs = replicate m' z @ ys"
  shows "m = m' \<and> xs = ys"
  using assms
proof (induction m arbitrary: m')
  case 0
  show ?case
  proof (cases m')
    case 0
    with "0.prems" show ?thesis by simp
  next
    case (Suc k)
    with "0.prems"(5) have "xs = z # replicate k z @ ys" by simp
    with "0.prems"(3) show ?thesis by simp
  qed
next
  case (Suc m)
  show ?case
  proof (cases m')
    case 0
    with Suc.prems(5) have "ys = z # replicate m z @ xs" by simp
    with Suc.prems(4) show ?thesis by simp
  next
    case (Suc k)
    with Suc.prems(5) have "replicate m z @ xs = replicate k z @ ys" by simp
    from Suc.IH[OF Suc.prems(1-4) this] Suc show ?thesis by simp
  qed
qed

lemma replicate_suffix_inj:
  assumes "xs \<noteq> []" "ys \<noteq> []" "last xs \<noteq> z" "last ys \<noteq> z"
    and eq: "xs @ replicate m z = ys @ replicate m' z"
  shows "m = m' \<and> xs = ys"
proof -
  from eq have "rev (xs @ replicate m z) = rev (ys @ replicate m' z)" by simp
  then have "replicate m z @ rev xs = replicate m' z @ rev ys" by simp
  moreover have "hd (rev xs) \<noteq> z" "hd (rev ys) \<noteq> z"
    using assms(1-4) by (simp_all add: hd_rev)
  ultimately have "m = m' \<and> rev xs = rev ys"
    using assms(1,2) by (intro replicate_prefix_inj) simp_all
  then show ?thesis by simp
qed

lemma split_at_char:
  assumes "c \<notin> set xs" "c \<notin> set xs'" and "xs @ c # ys = xs' @ c # ys'"
  shows "xs = xs' \<and> ys = ys'"
  using assms
proof (induction xs arbitrary: xs')
  case Nil
  then show ?case by (cases xs') auto
next
  case (Cons x xs)
  then show ?case by (cases xs') auto
qed

lemma decimal_not_mark:
  "decimal ch \<Longrightarrow> ch \<noteq> CHR ''.'' \<and> ch \<noteq> CHR ''e'' \<and> ch \<noteq> CHR ''-'' \<and> ch \<noteq> CHR ''+''
     \<and> ch \<noteq> CHR ''_'' \<and> ch \<noteq> CHR ''N'' \<and> ch \<noteq> CHR ''I'' \<and> ch \<noteq> CHR ''u''"
  by auto

lemma positiveToString_integer:
  "int (length (natToString s)) \<le> n \<Longrightarrow> n \<le> 21 \<Longrightarrow>
     positiveToString s n =
       natToString s @ replicate (nat (n - int (length (natToString s)))) (CHR ''0'')"
  by (simp add: positiveToString_def Let_def)

lemma positiveToString_point:
  "\<not> int (length (natToString s)) \<le> n \<Longrightarrow> 0 < n \<Longrightarrow> n \<le> 21 \<Longrightarrow>
     positiveToString s n = take (nat n) (natToString s) @ CHR ''.'' # drop (nat n) (natToString s)"
  by (simp add: positiveToString_def Let_def)

lemma positiveToString_fraction:
  "- 6 < n \<Longrightarrow> n \<le> 0 \<Longrightarrow>
     positiveToString s n =
       CHR ''0'' # CHR ''.'' # replicate (nat (- n)) (CHR ''0'') @ natToString s"
  using natToString_nonempty[of s]
  by (cases "natToString s") (simp_all add: positiveToString_def Let_def)

lemma positiveToString_exponent:
  "21 < n \<or> n \<le> - 6 \<Longrightarrow>
     positiveToString s n =
       mantissa (natToString s) @
         CHR ''e'' # (if n < 0 then CHR ''-'' else CHR ''+'') # natToString (nat \<bar>n - 1\<bar>)"
  using natToString_nonempty[of s]
  by (cases "natToString s") (auto simp: positiveToString_def Let_def mantissa_def)

lemma digits_no_mark:
  "CHR ''e'' \<notin> set (natToString s)" "CHR ''.'' \<notin> set (natToString s)"
  "CHR ''_'' \<notin> set (natToString s)"
  using natToString_decimal[of _ s] decimal_not_mark by blast+

lemma digits_ends:
  assumes "shortest s"
  shows "hd (natToString s) \<noteq> CHR ''0''" "last (natToString s) \<noteq> CHR ''0''"
proof -
  from assms show "hd (natToString s) \<noteq> CHR ''0''"
    by (simp add: shortest_def natToString_hd)
  have "s mod 10 < 10" by simp
  from digitChar_zero[OF this] assms show "last (natToString s) \<noteq> CHR ''0''"
    by (simp add: shortest_def natToString_last)
qed

lemma part_no_mark:
  "CHR ''e'' \<notin> set (take j (natToString s))" "CHR ''e'' \<notin> set (drop j (natToString s))"
  "CHR ''.'' \<notin> set (take j (natToString s))" "CHR ''.'' \<notin> set (drop j (natToString s))"
  "CHR ''_'' \<notin> set (take j (natToString s))" "CHR ''_'' \<notin> set (drop j (natToString s))"
  using digits_no_mark[of s] set_take_subset[of j "natToString s"]
    set_drop_subset[of j "natToString s"]
  by blast+

lemma mantissa_no_e: "CHR ''e'' \<notin> set (mantissa (natToString s))"
  by (simp add: mantissa_def digits_no_mark part_no_mark)

lemma text_has_e: "(CHR ''e'' \<in> set (positiveToString s n)) = (21 < n \<or> n \<le> - 6)"
proof (cases "21 < n \<or> n \<le> - 6")
  case True
  then show ?thesis by (simp add: positiveToString_exponent)
next
  case False
  then have range: "- 6 < n" "n \<le> 21" by simp_all
  show ?thesis
  proof (cases "int (length (natToString s)) \<le> n")
    case True
    with range False show ?thesis
      by (simp add: positiveToString_integer digits_no_mark)
  next
    case long: False
    show ?thesis
    proof (cases "0 < n")
      case True
      with long range False show ?thesis
        by (simp add: positiveToString_point part_no_mark)
    next
      case False
      with range \<open>\<not> (21 < n \<or> n \<le> - 6)\<close> show ?thesis
        by (simp add: positiveToString_fraction digits_no_mark)
    qed
  qed
qed

lemma text_has_point:
  assumes "- 6 < n" "n \<le> 21"
  shows "(CHR ''.'' \<in> set (positiveToString s n)) = (\<not> int (length (natToString s)) \<le> n)"
proof (cases "int (length (natToString s)) \<le> n")
  case True
  with assms show ?thesis
    by (simp add: positiveToString_integer digits_no_mark)
next
  case long: False
  show ?thesis
  proof (cases "0 < n")
    case True
    with long assms show ?thesis
      by (simp add: positiveToString_point)
  next
    case False
    with long assms show ?thesis
      by (simp add: positiveToString_fraction)
  qed
qed

lemma text_leading_zero:
  assumes "shortest s" "- 6 < n" "n \<le> 21"
  shows "(hd (positiveToString s n) = CHR ''0'') = (n \<le> 0)"
proof (cases "int (length (natToString s)) \<le> n")
  case True
  have "1 \<le> int (length (natToString s))"
    using natToString_nonempty[of s] by (cases "natToString s") simp_all
  with True have "0 < n" by arith
  with True assms digits_ends(1)[OF assms(1)] show ?thesis
    by (simp add: positiveToString_integer hd_append natToString_nonempty)
next
  case long: False
  show ?thesis
  proof (cases "0 < n")
    case True
    then have "take (nat n) (natToString s) \<noteq> []"
      using natToString_nonempty[of s] by simp
    moreover from True have "hd (take (nat n) (natToString s)) = hd (natToString s)"
      by (cases "natToString s") (simp_all add: take_Cons')
    ultimately show ?thesis
      using True long assms digits_ends(1)[OF assms(1)]
      by (simp add: positiveToString_point hd_append)
  next
    case False
    with long assms show ?thesis
      by (simp add: positiveToString_fraction)
  qed
qed

lemma mantissa_inj:
  assumes "mantissa (natToString s) = mantissa (natToString t)"
  shows "natToString s = natToString t"
proof -
  let ?a = "natToString s" and ?b = "natToString t"
  have dot: "(CHR ''.'' \<in> set (mantissa (natToString u))) = (length (natToString u) \<noteq> 1)" for u
    by (simp add: mantissa_def digits_no_mark)
  from assms dot[of s] dot[of t] have same: "(length ?a = 1) = (length ?b = 1)"
    by simp
  show ?thesis
  proof (cases "length ?a = 1")
    case True
    with same assms show ?thesis by (simp add: mantissa_def)
  next
    case False
    with same assms have "take 1 ?a @ CHR ''.'' # drop 1 ?a = take 1 ?b @ CHR ''.'' # drop 1 ?b"
      by (simp add: mantissa_def)
    from split_at_char[OF part_no_mark(3) part_no_mark(3) this]
    have "take 1 ?a @ drop 1 ?a = take 1 ?b @ drop 1 ?b" by simp
    then show ?thesis by simp
  qed
qed

lemma positiveToString_inj:
  assumes s: "shortest s" and t: "shortest t"
    and eq: "positiveToString s n = positiveToString t m"
  shows "s = t \<and> n = m"
proof -
  let ?a = "natToString s" and ?b = "natToString t"
  from eq text_has_e[of s n] text_has_e[of t m]
  have e: "(21 < n \<or> n \<le> - 6) = (21 < m \<or> m \<le> - 6)" by simp
  show ?thesis
  proof (cases "21 < n \<or> n \<le> - 6")
    case True
    with e have em: "21 < m \<or> m \<le> - 6" by simp
    from eq have "mantissa ?a @ CHR ''e'' # (if n < 0 then CHR ''-'' else CHR ''+'')
                    # natToString (nat \<bar>n - 1\<bar>) =
                  mantissa ?b @ CHR ''e'' # (if m < 0 then CHR ''-'' else CHR ''+'')
                    # natToString (nat \<bar>m - 1\<bar>)"
      by (simp only: positiveToString_exponent[OF True] positiveToString_exponent[OF em])
    from split_at_char[OF mantissa_no_e mantissa_no_e this]
    have parts: "mantissa ?a = mantissa ?b"
      "(if n < 0 then CHR ''-'' else CHR ''+'') = (if m < 0 then CHR ''-'' else CHR ''+'')"
      "natToString (nat \<bar>n - 1\<bar>) = natToString (nat \<bar>m - 1\<bar>)"
      by blast+
    from mantissa_inj[OF parts(1)] have "s = t" by (rule natToString_inj)
    moreover from parts(2) have sign: "(n < 0) = (m < 0)"
      by (simp split: if_splits)
    from natToString_inj[OF parts(3)] have "\<bar>n - 1\<bar> = \<bar>m - 1\<bar>" by simp
    with sign True em have "n = m" by arith
    ultimately show ?thesis by simp
  next
    case False
    with e have rn: "- 6 < n" "n \<le> 21" and rm: "- 6 < m" "m \<le> 21" by simp_all
    from eq text_has_point[OF rn, of s] text_has_point[OF rm, of t]
    have long: "(int (length ?a) \<le> n) = (int (length ?b) \<le> m)" by simp
    from eq text_leading_zero[OF s rn] text_leading_zero[OF t rm]
    have zero: "(n \<le> 0) = (m \<le> 0)" by simp
    show ?thesis
    proof (cases "int (length ?a) \<le> n")
      case True
      with long have lm: "int (length ?b) \<le> m" by simp
      from eq have "?a @ replicate (nat (n - int (length ?a))) (CHR ''0'') =
                    ?b @ replicate (nat (m - int (length ?b))) (CHR ''0'')"
        by (simp only: positiveToString_integer[OF True rn(2)] positiveToString_integer[OF lm rm(2)])
      from replicate_suffix_inj[OF natToString_nonempty natToString_nonempty
          digits_ends(2)[OF s] digits_ends(2)[OF t] this]
      have r: "nat (n - int (length ?a)) = nat (m - int (length ?b))" "?a = ?b" by blast+
      from r(2) have "s = t" by (rule natToString_inj)
      moreover from r True lm have "n = m" by simp
      ultimately show ?thesis by simp
    next
      case short: False
      with long have sm: "\<not> int (length ?b) \<le> m" by simp
      show ?thesis
      proof (cases "0 < n")
        case True
        with zero have pm: "0 < m" by simp
        from eq have "take (nat n) ?a @ CHR ''.'' # drop (nat n) ?a =
                      take (nat m) ?b @ CHR ''.'' # drop (nat m) ?b"
          by (simp only: positiveToString_point[OF short True rn(2)]
              positiveToString_point[OF sm pm rm(2)])
        from split_at_char[OF part_no_mark(3) part_no_mark(3) this]
        have parts: "take (nat n) ?a = take (nat m) ?b" "drop (nat n) ?a = drop (nat m) ?b"
          by blast+
        then have "take (nat n) ?a @ drop (nat n) ?a = take (nat m) ?b @ drop (nat m) ?b"
          by simp
        then have "?a = ?b" by simp
        then have "s = t" by (rule natToString_inj)
        moreover from parts(1) have "length (take (nat n) ?a) = length (take (nat m) ?b)"
          by simp
        with short sm True pm have "n = m" by simp
        ultimately show ?thesis by simp
      next
        case False
        with zero have nm: "n \<le> 0" "m \<le> 0" by simp_all
        from eq have "replicate (nat (- n)) (CHR ''0'') @ ?a = replicate (nat (- m)) (CHR ''0'') @ ?b"
          by (simp add: positiveToString_fraction[OF rn(1) nm(1)]
              positiveToString_fraction[OF rm(1) nm(2)])
        from replicate_prefix_inj[OF natToString_nonempty natToString_nonempty
            digits_ends(1)[OF s] digits_ends(1)[OF t] this]
        have r: "nat (- n) = nat (- m)" "?a = ?b" by blast+
        from r(2) have "s = t" by (rule natToString_inj)
        moreover from r(1) nm have "n = m" by simp
        ultimately show ?thesis by simp
      qed
    qed
  qed
qed

lemma digits_hd_decimal: "decimal (hd (natToString s))"
  using natToString_decimal[of "hd (natToString s)" s] natToString_nonempty[of s]
  by simp

lemma mantissa_hd: "mantissa (natToString s) \<noteq> [] \<and> hd (mantissa (natToString s)) = hd (natToString s)"
  using natToString_nonempty[of s]
  by (cases "natToString s") (simp_all add: mantissa_def)

lemma text_first_char:
  "positiveToString s n \<noteq> [] \<and> decimal (hd (positiveToString s n))"
proof (cases "21 < n \<or> n \<le> - 6")
  case True
  with mantissa_hd[of s] digits_hd_decimal[of s] show ?thesis
    by (simp add: positiveToString_exponent hd_append)
next
  case False
  then have range: "- 6 < n" "n \<le> 21" by simp_all
  show ?thesis
  proof (cases "int (length (natToString s)) \<le> n")
    case True
    with range digits_hd_decimal[of s] show ?thesis
      by (simp add: positiveToString_integer hd_append natToString_nonempty)
  next
    case long: False
    show ?thesis
    proof (cases "0 < n")
      case True
      then have "take (nat n) (natToString s) \<noteq> []"
        using natToString_nonempty[of s] by simp
      moreover from True have "hd (take (nat n) (natToString s)) = hd (natToString s)"
        by (cases "natToString s") (simp_all add: take_Cons')
      ultimately show ?thesis
        using True long range digits_hd_decimal[of s]
        by (simp add: positiveToString_point hd_append)
    next
      case False
      with long range show ?thesis
        by (simp add: positiveToString_fraction)
    qed
  qed
qed

lemma text_not_zero:
  assumes "shortest s"
  shows "positiveToString s n \<noteq> ''0''"
proof
  assume zero: "positiveToString s n = ''0''"
  from text_has_e[of s n] zero have range: "- 6 < n" "n \<le> 21" by auto
  from text_has_point[OF range, of s] zero have long: "int (length (natToString s)) \<le> n"
    by simp
  from text_leading_zero[OF assms range] zero have "n \<le> 0" by simp
  moreover have "1 \<le> int (length (natToString s))"
    using natToString_nonempty[of s] by (cases "natToString s") simp_all
  ultimately show False using long by arith
qed

lemma text_first:
  assumes "shortest s"
  shows "\<exists>ch rest. positiveToString s n = ch # rest \<and> decimal ch \<and> (ch = CHR ''0'' \<longrightarrow> rest \<noteq> [])"
proof -
  from text_first_char[of s n] obtain ch rest where
    t: "positiveToString s n = ch # rest" "decimal ch"
    by (cases "positiveToString s n") auto
  from text_not_zero[OF assms, of n] t(1) have "ch = CHR ''0'' \<longrightarrow> rest \<noteq> []"
    by auto
  with t show ?thesis by blast
qed

lemma text_no_underscore: "CHR ''_'' \<notin> set (positiveToString s n)"
proof (cases "21 < n \<or> n \<le> - 6")
  case True
  then show ?thesis
    by (simp add: positiveToString_exponent mantissa_def digits_no_mark part_no_mark)
next
  case False
  then have range: "- 6 < n" "n \<le> 21" by simp_all
  show ?thesis
  proof (cases "int (length (natToString s)) \<le> n")
    case True
    with range show ?thesis
      by (simp add: positiveToString_integer digits_no_mark)
  next
    case long: False
    show ?thesis
    proof (cases "0 < n")
      case True
      with long range show ?thesis
        by (simp add: positiveToString_point part_no_mark)
    next
      case False
      with long range show ?thesis
        by (simp add: positiveToString_fraction digits_no_mark)
    qed
  qed
qed

lemma lastValue_range: "0 < lastValue d \<and> lastValue d < 10"
  by (cases d) simp_all

lemma lastValue_inj: "lastValue d = lastValue e \<Longrightarrow> d = e"
  by (cases d; cases e) simp_all

lemma significand_shortest: "shortest (10 * q + lastValue d)"
  using lastValue_range[of d] by (simp add: shortest_def)

lemma significand_inj:
  assumes "10 * q + lastValue d = 10 * r + lastValue e"
  shows "q = r \<and> d = e"
proof -
  from lastValue_range[of d] lastValue_range[of e] assms have "q = r" "lastValue d = lastValue e"
    by arith+
  then show ?thesis by (simp add: lastValue_inj)
qed

lemma numberToString_no_underscore: "CHR ''_'' \<notin> set (numberToString x)"
  by (cases x) (simp_all add: text_no_underscore)

lemma jsToString_no_underscore: "CHR ''_'' \<notin> set (jsToString v)"
  by (cases v) (simp_all add: numberToString_no_underscore)

lemma finite_text:
  "\<exists>ch rest. positiveToString (10 * q + lastValue d) n = ch # rest \<and> decimal ch
      \<and> (ch = CHR ''0'' \<longrightarrow> rest \<noteq> [])"
  by (rule text_first[OF significand_shortest])

lemma finite_inj:
  assumes "numberToString (Finite a q d n) = numberToString (Finite b r e m)"
  shows "Finite a q d n = Finite b r e m"
proof -
  let ?s = "10 * q + lastValue d" and ?t = "10 * r + lastValue e"
  from finite_text[of q d n] obtain ch rest where
    s: "positiveToString ?s n = ch # rest" "decimal ch" by blast
  from finite_text[of r e m] obtain ch' rest' where
    t: "positiveToString ?t m = ch' # rest'" "decimal ch'" by blast
  from s(2) t(2) have marks: "ch \<noteq> CHR ''-''" "ch' \<noteq> CHR ''-''"
    using decimal_not_mark by blast+
  from assms s(1) t(1) marks have sign: "a = b"
    by (cases a; cases b) simp_all
  with assms have "positiveToString ?s n = positiveToString ?t m"
    by (cases b) simp_all
  from positiveToString_inj[OF significand_shortest significand_shortest this]
  have "?s = ?t" "n = m" by simp_all
  with significand_inj[of q d r e] sign show ?thesis by simp
qed

lemma finite_not_special:
  assumes "z = NaN \<or> z = Zero \<or> z = Infinity b"
  shows "numberToString (Finite a q d n) \<noteq> numberToString z"
proof -
  from finite_text[of q d n] obtain ch rest where
    s: "positiveToString (10 * q + lastValue d) n = ch # rest" "decimal ch"
      "ch = CHR ''0'' \<longrightarrow> rest \<noteq> []" by blast
  from s(2) have marks: "ch \<noteq> CHR ''-''" "ch \<noteq> CHR ''N''" "ch \<noteq> CHR ''I''"
    using decimal_not_mark by blast+
  from assms consider "z = NaN" | "z = Zero" | "z = Infinity b" by blast
  then show ?thesis
  proof cases
    case 1
    with s(1) marks show ?thesis by (cases a) simp_all
  next
    case 2
    with s(1) s(3) marks show ?thesis by (cases a) auto
  next
    case 3
    with s(1) marks show ?thesis by (cases a; cases b) simp_all
  qed
qed

lemma special_inj:
  assumes "x = NaN \<or> x = Zero \<or> x = Infinity a" and "y = NaN \<or> y = Zero \<or> y = Infinity b"
    and "numberToString x = numberToString y"
  shows "x = y"
  using assms by (auto split: if_splits)

lemma number_cases:
  "(\<exists>a q d n. x = Finite a q d n) \<or> (\<exists>a. x = NaN \<or> x = Zero \<or> x = Infinity a)"
  by (cases x) auto

lemma numberToString_inj:
  assumes eq: "numberToString x = numberToString y"
  shows "x = y"
proof -
  from number_cases[of x] show ?thesis
  proof
    assume "\<exists>a q d n. x = Finite a q d n"
    then obtain a q d n where x: "x = Finite a q d n" by blast
    from number_cases[of y] show ?thesis
    proof
      assume "\<exists>b r e m. y = Finite b r e m"
      then obtain b r e m where y: "y = Finite b r e m" by blast
      from eq x y finite_inj[of a q d n b r e m] show ?thesis by simp
    next
      assume "\<exists>b. y = NaN \<or> y = Zero \<or> y = Infinity b"
      then obtain b where "y = NaN \<or> y = Zero \<or> y = Infinity b" by blast
      from finite_not_special[OF this, of a q d n] eq x show ?thesis by simp
    qed
  next
    assume "\<exists>a. x = NaN \<or> x = Zero \<or> x = Infinity a"
    then obtain a where x: "x = NaN \<or> x = Zero \<or> x = Infinity a" by blast
    from number_cases[of y] show ?thesis
    proof
      assume "\<exists>b r e m. y = Finite b r e m"
      then obtain b r e m where y: "y = Finite b r e m" by blast
      from finite_not_special[OF x, of b r e m] eq y show ?thesis by simp
    next
      assume "\<exists>b. y = NaN \<or> y = Zero \<or> y = Infinity b"
      then obtain b where "y = NaN \<or> y = Zero \<or> y = Infinity b" by blast
      from special_inj[OF x this eq] show ?thesis .
    qed
  qed
qed

lemma numberToString_defined: "numberToString x \<noteq> ''undefined''"
proof (cases x)
  case (Finite a q d n)
  from finite_text[of q d n] obtain ch rest where
    s: "positiveToString (10 * q + lastValue d) n = ch # rest" "decimal ch" by blast
  from s(2) have "ch \<noteq> CHR ''u''" "ch \<noteq> CHR ''-''" using decimal_not_mark by blast+
  with s(1) Finite show ?thesis by (cases a) simp_all
qed (simp_all split: if_splits)

lemma jsToString_inj:
  assumes "jsToString v = jsToString w"
  shows "v = w"
proof (cases v)
  case None
  with assms numberToString_defined show ?thesis
    by (cases w) (simp_all, metis)
next
  case (Some x)
  show ?thesis
  proof (cases w)
    case None
    with assms Some numberToString_defined[of x] show ?thesis by simp
  next
    case (Some y)
    with assms \<open>v = Some x\<close> numberToString_inj[of x y] show ?thesis by simp
  qed
qed

lemma natToString_times_ten: "0 < m \<Longrightarrow> natToString (10 * m) = natToString m @ ''0''"
  by (simp add: natToString_large digitChar_def)

lemma natToString_shift:
  "0 < s \<Longrightarrow> natToString (s * 10 ^ z) = natToString s @ replicate z (CHR ''0'')"
proof (induction z)
  case 0
  then show ?case by simp
next
  case (Suc z)
  have "s * 10 ^ Suc z = 10 * (s * 10 ^ z)" by simp
  moreover from Suc.prems have "0 < s * 10 ^ z" by simp
  ultimately have "natToString (s * 10 ^ Suc z) = natToString (s * 10 ^ z) @ ''0''"
    by (simp only: natToString_times_ten)
  with Suc show ?case
    by (simp add: replicate_append_same)
qed

lemma trailingZeros_split:
  "0 < i \<Longrightarrow>
     i = (i div 10 ^ trailingZeros i) * 10 ^ trailingZeros i
     \<and> (i div 10 ^ trailingZeros i) mod 10 \<noteq> 0"
proof (induction i rule: trailingZeros.induct)
  case (1 i)
  show ?case
  proof (cases "i mod 10 = 0")
    case True
    with "1.prems" have step: "trailingZeros i = Suc (trailingZeros (i div 10))"
      by (subst trailingZeros.simps) simp
    from True "1.prems" have pos: "0 < i div 10" by arith
    let ?t = "trailingZeros (i div 10)"
    from "1.IH" True "1.prems" pos have ih:
      "i div 10 = (i div 10 div 10 ^ ?t) * 10 ^ ?t" "(i div 10 div 10 ^ ?t) mod 10 \<noteq> 0"
      by simp_all
    have d: "i div 10 ^ Suc ?t = i div 10 div 10 ^ ?t"
      by (simp add: div_mult2_eq)
    from True have "i = 10 * (i div 10)" by (simp add: mod_eq_0_iff_dvd)
    with ih(1) have "i = (i div 10 div 10 ^ ?t) * 10 ^ Suc ?t"
      by simp
    with ih(2) show ?thesis
      by (simp only: step d) simp
  next
    case False
    then have "trailingZeros i = 0"
      by (subst trailingZeros.simps) simp
    with False show ?thesis by simp
  qed
qed

lemma natToString_length: "0 < k \<Longrightarrow> i < 10 ^ k \<Longrightarrow> length (natToString i) \<le> k"
proof (induction i arbitrary: k rule: natToString.induct)
  case (1 i)
  show ?case
  proof (cases "i < 10")
    case True
    with "1.prems" show ?thesis by (simp add: natToString_small)
  next
    case False
    with "1.prems" obtain j where k: "k = Suc j"
      by (cases k) simp_all
    with "1.prems" False have "0 < j"
      by (cases j) simp_all
    moreover from "1.prems" k have "i div 10 < 10 ^ j"
      by (simp add: less_mult_imp_div_less mult.commute)
    ultimately have "length (natToString (i div 10)) \<le> j"
      using "1.IH"[OF False] by simp
    with False k show ?thesis
      by (simp add: natToString_large)
  qed
qed

lemma lastValue_lastDigitOf: "0 < r \<Longrightarrow> r < 10 \<Longrightarrow> lastValue (lastDigitOf r) = r"
  using below_ten[of r] by (auto simp: lastDigitOf_def)

lemma numberOfNat_text:
  assumes "i < 10 ^ 21"
  shows "numberToString (numberOfNat i) = natToString i"
proof (cases "i = 0")
  case True
  then show ?thesis
    by (simp add: numberOfNat_def natToString_small digitChar_def)
next
  case False
  let ?z = "trailingZeros i"
  let ?s = "i div 10 ^ ?z"
  from False trailingZeros_split[of i] have split: "i = ?s * 10 ^ ?z" "?s mod 10 \<noteq> 0"
    by simp_all
  from split(2) have pos: "0 < ?s" by (cases "?s = 0") simp_all
  have "?s mod 10 < 10" by simp
  with split(2) have "lastValue (lastDigitOf (?s mod 10)) = ?s mod 10"
    by (intro lastValue_lastDigitOf) simp_all
  then have sig: "10 * (?s div 10) + lastValue (lastDigitOf (?s mod 10)) = ?s"
    by simp
  from natToString_shift[OF pos, of ?z] split(1)
  have shifted: "natToString i = natToString ?s @ replicate ?z (CHR ''0'')"
    by simp
  then have len: "int (length (natToString i)) = int (length (natToString ?s)) + int ?z"
    by simp
  from natToString_length[of 21 i] assms have short: "int (length (natToString i)) \<le> 21"
    by simp
  have "positiveToString ?s (int (length (natToString i))) =
        natToString ?s @ replicate (nat (int (length (natToString i)) - int (length (natToString ?s))))
          (CHR ''0'')"
    using len short by (intro positiveToString_integer) simp_all
  also have "\<dots> = natToString i"
    by (simp only: len shifted) simp
  finally show ?thesis
    using False by (simp add: numberOfNat_def Let_def sig)
qed

lemma indexOfFrom_first_underscore:
  "CHR ''_'' \<notin> set xs \<Longrightarrow> indexOfFrom (xs @ CHR ''_'' # ys) ''_'' i = i + int (length xs)"
  by (induction xs arbitrary: i) auto

lemma substring2_middle:
  "substring2 (a @ s @ b) (int (length a)) (int (length a) + int (length s)) = s"
proof -
  have 1: "clampIndex (a @ s @ b) (int (length a)) = length a"
    by (simp add: clampIndex_def)
  have 2: "clampIndex (a @ s @ b) (int (length a) + int (length s)) = length a + length s"
    by (simp add: clampIndex_def nat_add_distrib)
  show ?thesis
    unfolding substring2_def 1 2 by (simp add: Let_def)
qed

lemma substring1_suffix: "substring1 (a @ b) (int (length a)) = b"
  by (simp add: substring1_def clampIndex_def)

lemma key_round_trip:
  assumes "CHR ''_'' \<notin> set s"
  shows "getPositionFromGroupId (''slice-'' @ s @ ''_frame-'' @ f) =
           ([], \<lparr>sliceNumber = s, frameNumber = f\<rparr>)"
proof -
  let ?k = "''slice-'' @ s @ ''_frame-'' @ f"
  have "indexOf ?k ''_'' = indexOfFrom ((''slice-'' @ s) @ CHR ''_'' # (''frame-'' @ f)) ''_'' 0"
    by (simp add: indexOf_def)
  also have "\<dots> = 0 + int (length (''slice-'' @ s))"
    by (rule indexOfFrom_first_underscore) (use assms in auto)
  finally have ix: "indexOf ?k ''_'' = 6 + int (length s)" by simp
  have a: "substring2 ?k 6 (6 + int (length s)) = s"
    using substring2_middle[of "''slice-''" s "''_frame-'' @ f"] by simp
  have "substring1 ((''slice-'' @ s @ ''_frame-'') @ f)
          (int (length (''slice-'' @ s @ ''_frame-''))) = f"
    by (rule substring1_suffix)
  then have b: "substring1 ?k (6 + int (length s) + 7) = f"
    by (simp add: add.commute add.left_commute)
  show ?thesis
    unfolding getPositionFromGroupId_def ix Let_def a b by simp
qed

lemma key_text:
  "getDrawPositionGroupId p =
     ''slice-'' @ jsToString (sliceOf p) @ ''_frame-'' @ jsToString (frameOf p)"
  by (simp add: getDrawPositionGroupId_def sliceOf_def frameOf_def pointGet_def Let_def)

text \<open>
  Claim C6. For every position, \<open>getDrawPositionGroupId\<close> gives the key
  \<open>slice-<s>_frame-<f>\<close>, where \<open>s\<close> is the component at index 2 and \<open>f\<close> the
  component at index 3 when the position has four components and 0 otherwise, each as
  JavaScript prints it; \<open>getPositionFromGroupId\<close> of that key gives back the texts
  of \<open>s\<close> and \<open>f\<close>, with no warning logged; the texts determine the values: two
  positions for which the same is given back have the same slice and the same frame;
  and for natural numbers below \<open>10 ^ 21\<close> the texts are their decimal numerals.
\<close>

theorem position_group_id_round_trip:
  "getDrawPositionGroupId p =
     ''slice-'' @ jsToString (sliceOf p) @ ''_frame-'' @ jsToString (frameOf p)
   \<and> getPositionFromGroupId (getDrawPositionGroupId p) =
       ([], \<lparr> sliceNumber = jsToString (sliceOf p), frameNumber = jsToString (frameOf p) \<rparr>)
   \<and> (getPositionFromGroupId (getDrawPositionGroupId p) =
        getPositionFromGroupId (getDrawPositionGroupId q)
        \<longrightarrow> sliceOf p = sliceOf q \<and> frameOf p = frameOf q)
   \<and> (a < 10 ^ 21 \<and> b < 10 ^ 21 \<longrightarrow>
        getDrawPositionGroupId [x, y, numberOfNat a, numberOfNat b] =
          ''slice-'' @ natToString a @ ''_frame-'' @ natToString b)"
proof (intro conjI impI)
  show "getDrawPositionGroupId p =
     ''slice-'' @ jsToString (sliceOf p) @ ''_frame-'' @ jsToString (frameOf p)"
    by (rule key_text)
  have returned: "getPositionFromGroupId (getDrawPositionGroupId r) =
       ([], \<lparr> sliceNumber = jsToString (sliceOf r), frameNumber = jsToString (frameOf r) \<rparr>)"
    for r
    unfolding key_text by (rule key_round_trip) (rule jsToString_no_underscore)
  show "getPositionFromGroupId (getDrawPositionGroupId p) =
       ([], \<lparr> sliceNumber = jsToString (sliceOf p), frameNumber = jsToString (frameOf p) \<rparr>)"
    by (rule returned)
  show "sliceOf p = sliceOf q" "frameOf p = frameOf q"
    if "getPositionFromGroupId (getDrawPositionGroupId p) =
        getPositionFromGroupId (getDrawPositionGroupId q)"
  proof -
    from that have texts: "jsToString (sliceOf p) = jsToString (sliceOf q)"
      "jsToString (frameOf p) = jsToString (frameOf q)"
      by (simp_all add: returned)
    from texts(1) show "sliceOf p = sliceOf q" by (rule jsToString_inj)
    from texts(2) show "frameOf p = frameOf q" by (rule jsToString_inj)
  qed
  show "getDrawPositionGroupId [x, y, numberOfNat a, numberOfNat b] =
          ''slice-'' @ natToString a @ ''_frame-'' @ natToString b"
    if "a < 10 ^ 21 \<and> b < 10 ^ 21"
    using that
    by (simp add: key_text sliceOf_def frameOf_def numberOfNat_text)
qed

theorem position_group_id_round_trip_witness:
  "getDrawPositionGroupId [Zero, Zero, numberOfNat 3, numberOfNat 5] = ''slice-3_frame-5''
   \<and> getPositionFromGroupId ''slice-3_frame-5'' =
       ([], \<lparr> sliceNumber = ''3'', frameNumber = ''5'' \<rparr>)
   \<and> getPositionFromGroupId (getDrawPositionGroupId [Zero, Zero, numberOfNat 3, numberOfNat 5]) =
       getPositionFromGroupId
         (getDrawPositionGroupId [numberOfNat 7, numberOfNat 8, numberOfNat 3, numberOfNat 5])
   \<and> sliceOf [Zero, Zero, numberOfNat 3, numberOfNat 5] =
       sliceOf [numberOfNat 7, numberOfNat 8, numberOfNat 3, numberOfNat 5]
   \<and> frameOf [Zero, Zero, numberOfNat 3, numberOfNat 5] =
       frameOf [numberOfNat 7, numberOfNat 8, numberOfNat 3, numberOfNat 5]
   \<and> (120 :: nat) < 10 ^ 21 \<and> (0 :: nat) < 10 ^ 21
   \<and> getDrawPositionGroupId [Zero, Zero, numberOfNat 120, numberOfNat 0] = ''slice-120_frame-0''
   \<and> getDrawPositionGroupId [Zero, Zero, Finite False 0 L1 22] = ''slice-1e+21_frame-0''
   \<and> getDrawPositionGroupId [Zero, Zero, Finite True 1 L5 1, Finite False 0 L1 (- 6)] =
       ''slice--1.5_frame-1e-7''
   \<and> getDrawPositionGroupId [Zero, Zero] = ''slice-undefined_frame-0''"
proof -
  let ?p = "[Zero, Zero, numberOfNat 3, numberOfNat 5]"
  let ?q = "[numberOfNat 7, numberOfNat 8, numberOfNat 3, numberOfNat 5]"
  have keys: "getDrawPositionGroupId ?p = ''slice-3_frame-5''"
    "getDrawPositionGroupId ?q = ''slice-3_frame-5''"
    "getDrawPositionGroupId [Zero, Zero, numberOfNat 120, numberOfNat 0] = ''slice-120_frame-0''"
    "getDrawPositionGroupId [Zero, Zero, Finite False 0 L1 22] = ''slice-1e+21_frame-0''"
    "getDrawPositionGroupId [Zero, Zero, Finite True 1 L5 1, Finite False 0 L1 (- 6)] =
       ''slice--1.5_frame-1e-7''"
    "getDrawPositionGroupId [Zero, Zero] = ''slice-undefined_frame-0''"
    by code_simp+
  have texts: "jsToString (sliceOf ?p) = ''3''" "jsToString (frameOf ?p) = ''5''"
    by code_simp+
  have same: "getPositionFromGroupId (getDrawPositionGroupId ?p) =
      getPositionFromGroupId (getDrawPositionGroupId ?q)"
    by (simp only: keys)
  have small: "(120 :: nat) < 10 ^ 21 \<and> (0 :: nat) < 10 ^ 21"
    by simp
  note claim = position_group_id_round_trip[of ?p ?q 120 0 Zero Zero]
  from claim have "getPositionFromGroupId ''slice-3_frame-5'' =
       ([], \<lparr> sliceNumber = ''3'', frameNumber = ''5'' \<rparr>)"
    by (simp only: keys(1) texts) simp
  moreover from claim same have "sliceOf ?p = sliceOf ?q" "frameOf ?p = frameOf ?q"
    by blast+
  ultimately show ?thesis
    using keys same small by simp
qed


section \<open>Properties of the current position group\<close>

lemma position_with_id_children:
  "getChildren (isPositionWithId key) n = filter isPositionNode (getChildren (isNodeWithId key) n)"
  by (auto simp: getChildren_def isPositionWithId_def intro: filter_cong)

lemma id_selector: "(\<lambda>n. nid (attrs n) = key) = isNodeWithId key"
  by (auto simp: isNodeWithId_def)

lemmas example_defs =
  emptyController_def duplicateController_def strayController_def twoGroupsController_def
  controllerOf_def plainNode_def

lemmas node_test_defs =
  getChildren_def isPositionWithId_def isPositionNode_def isNodeWithId_def
  isNodeNameShape_def isNodeNameLabel_def isNodeNameShapeExtra_def startsWith_def

text \<open>
  Claim C1, as written, fails: on a layer that holds two position groups with the
  active key both calls return \<^verbatim>\<open>null\<close> and two groups with that key remain; on a
  layer whose only child with that identifier is no position group, that child is
  returned and no position group with the key exists afterwards.
\<close>

theorem getCurrentPosGroup_idempotent_counterexample:
  "fst (getCurrentPosGroup duplicateController) = None
   \<and> fst (getCurrentPosGroup (snd (getCurrentPosGroup duplicateController))) = None
   \<and> length (getChildren (isPositionWithId ''#2-3'')
        (konvaLayer (snd (getCurrentPosGroup (snd (getCurrentPosGroup duplicateController)))))) = 2
   \<and> getChildren (isPositionWithId ''#2-3'')
        (konvaLayer (snd (getCurrentPosGroup (snd (getCurrentPosGroup strayController))))) = []"
  by (simp add: getCurrentPosGroup_def example_defs node_test_defs Let_def)

text \<open>
  Claim C1, amended. For every layer with at most one direct child whose identifier is
  the active key, that child being a position group when it exists: two calls of
  \<open>getCurrentPosGroup\<close> in succession return the same node, the second call leaves the
  controller as the first left it, and afterwards that node is the one direct child of
  the layer that is a position group with the key.
\<close>

theorem getCurrentPosGroup_idempotent:
  assumes key: "currentPosGroupId c = Some key"
    and one: "length (getChildren (isNodeWithId key) (konvaLayer c)) \<le> 1"
    and pos: "list_all isPositionNode (getChildren (isNodeWithId key) (konvaLayer c))"
  shows "\<exists>g c1. getCurrentPosGroup c = (Some g, c1) \<and> getCurrentPosGroup c1 = (Some g, c1)
            \<and> getChildren (isPositionWithId key) (konvaLayer c1) = [g]"
proof (cases "getChildren (isNodeWithId key) (konvaLayer c)")
  case Nil
  let ?g = "newGroup (idCounter c) key ''position-group'' True"
  let ?c1 = "c\<lparr>konvaLayer := addChild ?g (konvaLayer c), idCounter := idCounter c + 1\<rparr>"
  have first: "getCurrentPosGroup c = (Some ?g, ?c1)"
    by (simp add: getCurrentPosGroup_def key id_selector Nil Let_def idOrDefault_def)
  have g: "isNodeWithId key ?g" "isPositionNode ?g"
    by (simp_all add: newGroup_def isNodeWithId_def isPositionNode_def)
  have found: "getChildren (isNodeWithId key) (konvaLayer ?c1) = [?g]"
    using Nil g by (simp add: getChildren_def addChild_def)
  have second: "getCurrentPosGroup ?c1 = (Some ?g, ?c1)"
    using found by (simp add: getCurrentPosGroup_def id_selector key Let_def)
  have "getChildren (isPositionWithId key) (konvaLayer ?c1) = [?g]"
    using g found by (simp add: position_with_id_children)
  with first second show ?thesis by blast
next
  case (Cons x xs)
  with one have xs: "xs = []" by simp
  have first: "getCurrentPosGroup c = (Some x, c)"
    by (simp add: getCurrentPosGroup_def key id_selector Cons xs Let_def)
  have "getChildren (isPositionWithId key) (konvaLayer c) = [x]"
    using pos by (simp add: position_with_id_children Cons xs)
  with first show ?thesis by blast
qed

theorem getCurrentPosGroup_idempotent_witness:
  "currentPosGroupId emptyController = Some ''#2-3''
   \<and> length (getChildren (isNodeWithId ''#2-3'') (konvaLayer emptyController)) \<le> 1
   \<and> list_all isPositionNode (getChildren (isNodeWithId ''#2-3'') (konvaLayer emptyController))
   \<and> (\<exists>g c1. getCurrentPosGroup emptyController = (Some g, c1)
         \<and> getCurrentPosGroup c1 = (Some g, c1)
         \<and> getChildren (isPositionWithId ''#2-3'') (konvaLayer c1) = [g])"
proof -
  have 1: "currentPosGroupId emptyController = Some ''#2-3''"
    by (simp add: example_defs)
  have 2: "length (getChildren (isNodeWithId ''#2-3'') (konvaLayer emptyController)) \<le> 1"
    by (simp add: example_defs getChildren_def)
  have 3: "list_all isPositionNode (getChildren (isNodeWithId ''#2-3'') (konvaLayer emptyController))"
    by (simp add: example_defs getChildren_def)
  from getCurrentPosGroup_idempotent[OF 1 2 3] 1 2 3 show ?thesis by blast
qed

text \<open>
  Claim C2, as written, fails: with two position groups whose identifier is the active
  key, \<open>getCurrentPosGroup\<close> returns \<^verbatim>\<open>null\<close>, not the first of them.
\<close>

theorem getCurrentPosGroup_duplicates_counterexample:
  "length (getChildren (isPositionWithId ''#2-3'') (konvaLayer duplicateController)) = 2
   \<and> nth0 (getChildren (isPositionWithId ''#2-3'') (konvaLayer duplicateController)) =
       Some (plainNode 1 ''#2-3'' ''position-group'' ''Group'' [])
   \<and> fst (getCurrentPosGroup duplicateController) = None"
  by (simp add: getCurrentPosGroup_def example_defs node_test_defs Let_def)

text \<open>
  Claim C2, amended. When the layer holds more than one direct position group whose
  identifier is the active key, \<open>getCurrentPosGroup\<close> logs the inconsistency, returns
  \<^verbatim>\<open>null\<close> and leaves the layer as it is.
\<close>

theorem getCurrentPosGroup_duplicates:
  assumes key: "currentPosGroupId c = Some key"
    and many: "1 < length (getChildren (isPositionWithId key) (konvaLayer c))"
  shows "getCurrentPosGroup c =
           (None, c\<lparr>warnings := warnings c @ [''Unexpected number of draw position groups.'']\<rparr>)"
proof -
  have "length (getChildren (isPositionWithId key) (konvaLayer c))
          \<le> length (getChildren (isNodeWithId key) (konvaLayer c))"
    by (simp add: position_with_id_children)
  with many have "1 < length (getChildren (isNodeWithId key) (konvaLayer c))" by simp
  then show ?thesis
    by (auto simp: getCurrentPosGroup_def key id_selector Let_def)
qed

theorem getCurrentPosGroup_duplicates_witness:
  "currentPosGroupId duplicateController = Some ''#2-3''
   \<and> 1 < length (getChildren (isPositionWithId ''#2-3'') (konvaLayer duplicateController))
   \<and> getCurrentPosGroup duplicateController =
       (None, duplicateController\<lparr>warnings := [''Unexpected number of draw position groups.'']\<rparr>)"
proof -
  have 1: "currentPosGroupId duplicateController = Some ''#2-3''"
    by (simp add: example_defs)
  have 2: "1 < length (getChildren (isPositionWithId ''#2-3'') (konvaLayer duplicateController))"
    by (simp add: example_defs node_test_defs)
  have 3: "warnings duplicateController = []"
    by (simp add: example_defs)
  from getCurrentPosGroup_duplicates[OF 1 2] 1 2 3 show ?thesis by simp
qed

section \<open>Properties of the activation\<close>

lemma filter_key_distinct:
  "distinct (map f xs) \<Longrightarrow> length (filter (\<lambda>x. f x = k) xs) \<le> 1"
proof (induction xs)
  case Nil
  then show ?case by simp
next
  case (Cons x xs)
  show ?case
  proof (cases "f x = k")
    case True
    from Cons.prems have "f x \<notin> f ` set xs" by simp
    have "\<forall>y\<in>set xs. f y \<noteq> k"
    proof
      fix y assume "y \<in> set xs"
      then have "f y \<in> f ` set xs" by simp
      with \<open>f x \<notin> f ` set xs\<close> True show "f y \<noteq> k" by metis
    qed
    then have "filter (\<lambda>x. f x = k) xs = []" by (simp add: filter_empty_conv)
    with True show ?thesis by simp
  next
    case False
    with Cons show ?thesis by simp
  qed
qed

lemma activate_groups:
  "filter isPositionNode (map (activateGroup key) ks) =
     map (\<lambda>n. setVisible (nid (attrs n) = key) n) (filter isPositionNode ks)"
  by (induction ks) (auto simp: activateGroup_def isPositionNode_def setVisible_def)

lemma visible_groups:
  "filter (\<lambda>n. visible (attrs n)) (map (\<lambda>n. setVisible (nid (attrs n) = key) n) gs) =
     map (setVisible True) (filter (\<lambda>n. nid (attrs n) = key) gs)"
  by (induction gs) (auto simp: setVisible_def)

text \<open>
  Claim C3. Let \<open>activateDrawLayer\<close> compute the key \<open>K\<close> on a layer whose direct
  position groups have distinct identifiers. The key is stored; the position groups
  keep their identifiers; if one of them has the identifier \<open>K\<close>, exactly one direct
  position group is visible afterwards and its identifier is \<open>K\<close>; if none has, no
  direct position group is visible afterwards.
\<close>

theorem activateDrawLayer_visibility:
  assumes uniq: "distinct (map (\<lambda>n. nid (attrs n)) (getChildren isPositionNode (konvaLayer c)))"
    and c': "c' = activateDrawLayer toStringId index scrollIndex c"
    and k: "key = toStringId index (scrollIndex # [3..<length index])"
  shows "currentPosGroupId c' = Some key
    \<and> map (\<lambda>n. nid (attrs n)) (getChildren isPositionNode (konvaLayer c')) =
        map (\<lambda>n. nid (attrs n)) (getChildren isPositionNode (konvaLayer c))
    \<and> ((\<exists>g \<in> set (getChildren isPositionNode (konvaLayer c)). nid (attrs g) = key) \<longrightarrow>
         (\<exists>g. filter (\<lambda>n. visible (attrs n)) (getChildren isPositionNode (konvaLayer c')) = [g]
              \<and> nid (attrs g) = key))
    \<and> ((\<forall>g \<in> set (getChildren isPositionNode (konvaLayer c)). nid (attrs g) \<noteq> key) \<longrightarrow>
         filter (\<lambda>n. visible (attrs n)) (getChildren isPositionNode (konvaLayer c')) = [])"
proof -
  let ?gs = "getChildren isPositionNode (konvaLayer c)"
  let ?gs' = "getChildren isPositionNode (konvaLayer c')"
  have gs': "?gs' = map (\<lambda>n. setVisible (nid (attrs n) = key) n) ?gs"
    by (simp add: c' k activateDrawLayer_def Let_def getChildren_def activate_groups)
  have vis: "filter (\<lambda>n. visible (attrs n)) ?gs' =
      map (setVisible True) (filter (\<lambda>n. nid (attrs n) = key) ?gs)"
    unfolding gs' by (rule visible_groups)
  have ids: "map (\<lambda>n. nid (attrs n)) ?gs' = map (\<lambda>n. nid (attrs n)) ?gs"
    unfolding gs' by (simp add: setVisible_def comp_def)
  have le: "length (filter (\<lambda>n. nid (attrs n) = key) ?gs) \<le> 1"
    using uniq by (rule filter_key_distinct)
  have some: "\<exists>g. filter (\<lambda>n. visible (attrs n)) ?gs' = [g] \<and> nid (attrs g) = key"
    if "\<exists>g \<in> set ?gs. nid (attrs g) = key"
  proof -
    from that have "filter (\<lambda>n. nid (attrs n) = key) ?gs \<noteq> []"
      by (simp add: filter_empty_conv)
    with le obtain x where x: "filter (\<lambda>n. nid (attrs n) = key) ?gs = [x]"
      by (cases "filter (\<lambda>n. nid (attrs n) = key) ?gs") auto
    then have "x \<in> set (filter (\<lambda>n. nid (attrs n) = key) ?gs)" by simp
    then have "nid (attrs x) = key" by simp
    then show ?thesis unfolding vis x by (simp add: setVisible_def)
  qed
  have none: "filter (\<lambda>n. visible (attrs n)) ?gs' = []"
    if "\<forall>g \<in> set ?gs. nid (attrs g) \<noteq> key"
    unfolding vis using that by (simp add: filter_empty_conv)
  have "currentPosGroupId c' = Some key"
    by (simp add: c' k activateDrawLayer_def Let_def)
  with ids some none show ?thesis by blast
qed

lemma exampleToStringId_slice3: "exampleToStringId [0, 0, 3] [2] = ''#2-3''"
  by (simp add: exampleToStringId_def intToString_def natToString_small
      digitChar_def)

lemma exampleToStringId_slice7: "exampleToStringId [0, 0, 7] [2] = ''#2-7''"
  by (simp add: exampleToStringId_def intToString_def natToString_small
      digitChar_def)

theorem activateDrawLayer_visibility_witness:
  "distinct (map (\<lambda>n. nid (attrs n)) (getChildren isPositionNode (konvaLayer twoGroupsController)))
   \<and> exampleToStringId [0, 0, 3] (2 # [3..<length [0, 0, 3 :: int]]) = ''#2-3''
   \<and> (\<exists>g. filter (\<lambda>n. visible (attrs n))
             (getChildren isPositionNode
                (konvaLayer (activateDrawLayer exampleToStringId [0, 0, 3] 2 twoGroupsController))) = [g]
         \<and> nid (attrs g) = ''#2-3'')
   \<and> filter (\<lambda>n. visible (attrs n))
        (getChildren isPositionNode
           (konvaLayer (activateDrawLayer exampleToStringId [0, 0, 7] 2 twoGroupsController))) = []"
proof -
  have d: "distinct (map (\<lambda>n. nid (attrs n))
             (getChildren isPositionNode (konvaLayer twoGroupsController)))"
    by (simp add: example_defs node_test_defs)
  have k3: "''#2-3'' = exampleToStringId [0, 0, 3] (2 # [3..<length [0, 0, 3 :: int]])"
    by (simp add: exampleToStringId_slice3)
  have k7: "''#2-7'' = exampleToStringId [0, 0, 7] (2 # [3..<length [0, 0, 7 :: int]])"
    by (simp add: exampleToStringId_slice7)
  have has: "\<exists>g \<in> set (getChildren isPositionNode (konvaLayer twoGroupsController)).
               nid (attrs g) = ''#2-3''"
    by (simp add: example_defs node_test_defs)
  have hasnot: "\<forall>g \<in> set (getChildren isPositionNode (konvaLayer twoGroupsController)).
               nid (attrs g) \<noteq> ''#2-7''"
    by (simp add: example_defs node_test_defs)
  from activateDrawLayer_visibility[where c = twoGroupsController
      and toStringId = exampleToStringId and index = "[0, 0, 3]" and scrollIndex = 2
      and key = "''#2-3''", OF d refl k3] has
  have a: "\<exists>g. filter (\<lambda>n. visible (attrs n))
             (getChildren isPositionNode
                (konvaLayer (activateDrawLayer exampleToStringId [0, 0, 3] 2 twoGroupsController))) = [g]
         \<and> nid (attrs g) = ''#2-3''"
    by blast
  from activateDrawLayer_visibility[where c = twoGroupsController
      and toStringId = exampleToStringId and index = "[0, 0, 7]" and scrollIndex = 2
      and key = "''#2-7''", OF d refl k7] hasnot
  have b: "filter (\<lambda>n. visible (attrs n))
        (getChildren isPositionNode
           (konvaLayer (activateDrawLayer exampleToStringId [0, 0, 7] 2 twoGroupsController))) = []"
    by blast
  from d k3 a b show ?thesis by simp
qed

section \<open>Properties of the display details\<close>

lemma indexOfFrom_found:
  "0 \<le> i \<Longrightarrow> (indexOfFrom s sub i \<noteq> - 1) = (\<exists>j\<le>length s. take (length sub) (drop j s) = sub)"
proof (induction s arbitrary: i)
  case Nil
  then show ?case by auto
next
  case (Cons c cs)
  show ?case
  proof (cases "take (length sub) (c # cs) = sub")
    case True
    then have "\<exists>j\<le>length (c # cs). take (length sub) (drop j (c # cs)) = sub"
      by (intro exI[of _ 0]) simp
    with True Cons.prems show ?thesis by simp
  next
    case False
    have "(\<exists>j\<le>length (c # cs). take (length sub) (drop j (c # cs)) = sub)
        = (\<exists>j\<le>length cs. take (length sub) (drop j cs) = sub)" (is "?l = ?r")
    proof
      assume ?l
      then obtain j where j: "j \<le> length (c # cs)" "take (length sub) (drop j (c # cs)) = sub"
        by blast
      with False obtain j' where "j = Suc j'" by (cases j) auto
      with j show ?r by auto
    next
      assume ?r
      then obtain j where "j \<le> length cs" "take (length sub) (drop j cs) = sub" by blast
      then show ?l by (intro exI[of _ "Suc j"]) simp
    qed
    moreover have "(indexOfFrom cs sub (i + 1) \<noteq> - 1) = ?r"
      using Cons.prems by (intro Cons.IH) simp
    ultimately show ?thesis using False by simp
  qed
qed

lemma indexOf_containsText: "(indexOf s sub \<noteq> - 1) = containsText s sub"
proof -
  have "set [0..<Suc (length s)] = {j. j \<le> length s}"
    by (auto simp del: upt_Suc)
  then have "containsText s sub = (\<exists>j\<le>length s. take (length sub) (drop j s) = sub)"
    unfolding containsText_def list_ex_iff by blast
  then show ?thesis
    by (simp add: indexOf_def indexOfFrom_found)
qed

lemma drawType_specType:
  "drawType grp shape = specType shape (getChildren isNodeNameShapeExtra grp)"
  by (cases "getChildren isNodeNameShapeExtra grp")
    (simp_all add: drawType_def specType_def Let_def indexOf_containsText)

lemma drawDisplayDetail_type:
  "drawDisplayDetail position grp = Inr d \<Longrightarrow> Some (detailsType d) = specGroupType grp"
  by (auto simp: drawDisplayDetail_def specGroupType_def Let_def drawType_specType
      split: option.splits)

lemma drawDisplayDetail_total:
  "drawable grp \<Longrightarrow> \<exists>d. drawDisplayDetail position grp = Inr d"
  by (cases "getChildren isNodeNameShape grp"; cases "nth0 (getChildren isNodeNameLabel grp)")
     (auto simp: drawDisplayDetail_def drawable_def Let_def neq_Nil_conv split: option.splits)

lemma displayCollec_types:
  "displayCollec position grps acc c = (Inr ds, c') \<Longrightarrow>
     map (\<lambda>d. Some (detailsType d)) ds = map (\<lambda>d. Some (detailsType d)) acc @ map specGroupType grps"
proof (induction grps arbitrary: acc)
  case Nil
  then show ?case by simp
next
  case (Cons g grps)
  then show ?case
    by (auto split: sum.splits dest!: drawDisplayDetail_type)
qed

lemma displayCollec_total:
  "list_all drawable grps \<Longrightarrow> \<exists>ds. displayCollec position grps acc c = (Inr ds, c)"
proof (induction grps arbitrary: acc)
  case Nil
  then show ?case by simp
next
  case (Cons g grps)
  from Cons.prems obtain d where "drawDisplayDetail position g = Inr d"
    using drawDisplayDetail_total by auto
  with Cons show ?case by simp
qed

lemma displayGroups_types:
  "displayGroups indexText gs acc c = (Inr ds, c') \<Longrightarrow>
     map (\<lambda>d. Some (detailsType d)) ds =
       map (\<lambda>d. Some (detailsType d)) acc @ map specGroupType (concat (map kids gs))"
proof (induction gs arbitrary: acc c)
  case Nil
  then show ?case by simp
next
  case (Cons g gs)
  then show ?case
    by (auto split: sum.splits prod.splits dest!: displayCollec_types)
qed

lemma displayGroups_total:
  "list_all drawable (concat (map kids gs)) \<Longrightarrow>
     \<exists>ds. displayGroups indexText gs acc c = (Inr ds, c)"
proof (induction gs arbitrary: acc)
  case Nil
  then show ?case by simp
next
  case (Cons g gs)
  from Cons.prems have "list_all drawable (kids g)" by simp
  then obtain ds where
    "displayCollec (indexText (nid (attrs g))) (kids g) acc c = (Inr ds, c)"
    using displayCollec_total by blast
  with Cons show ?case by simp
qed

lemma displayCollec_state: "snd (displayCollec position grps acc c) = c"
  by (induction grps arbitrary: acc) (auto split: sum.splits)

lemma displayGroups_state: "snd (displayGroups indexText gs acc c) = c"
proof (induction gs arbitrary: acc)
  case Nil
  then show ?case by simp
next
  case (Cons g gs)
  have "snd (displayCollec (indexText (nid (attrs g))) (kids g) acc c) = c"
    by (rule displayCollec_state)
  with Cons show ?case
    by (cases "displayCollec (indexText (nid (attrs g))) (kids g) acc c")
      (auto split: sum.splits)
qed

text \<open>
  Claim C5. Whenever \<open>getDrawDisplayDetails\<close> returns its list, the types in it are,
  group by group, the types of the claim's classification; and it does return a list
  when every annotation group has a shape and a label with a child.
\<close>

theorem getDrawDisplayDetails_types:
  "(list_all drawable (annotationGroups (konvaLayer c)) \<longrightarrow>
      (\<exists>ds. fst (getDrawDisplayDetails indexText c) = Inr ds))
   \<and> (\<forall>ds. fst (getDrawDisplayDetails indexText c) = Inr ds \<longrightarrow>
         map (\<lambda>d. Some (detailsType d)) ds =
           map specGroupType (annotationGroups (konvaLayer c)))"
proof -
  have "\<exists>ds. fst (getDrawDisplayDetails indexText c) = Inr ds"
    if "list_all drawable (annotationGroups (konvaLayer c))"
    using displayGroups_total[of "kids (konvaLayer c)" indexText "[]" c] that
    by (auto simp: getDrawDisplayDetails_def annotationGroups_def)
  moreover have "map (\<lambda>d. Some (detailsType d)) ds =
           map specGroupType (annotationGroups (konvaLayer c))"
    if "fst (getDrawDisplayDetails indexText c) = Inr ds" for ds
    using displayGroups_types[of indexText "kids (konvaLayer c)" "[]" c ds
        "snd (getDrawDisplayDetails indexText c)"] that
    by (cases "getDrawDisplayDetails indexText c")
      (auto simp: getDrawDisplayDetails_def annotationGroups_def)
  ultimately show ?thesis by blast
qed

text \<open>
  Claim C10. \<open>getDrawDisplayDetails\<close> leaves the controller, and with it every node of
  the scene, as it found it, whether it returns a list or throws.
\<close>

theorem getDrawDisplayDetails_pure: "snd (getDrawDisplayDetails indexText c) = c"
  by (simp add: getDrawDisplayDetails_def displayGroups_state)


lemmas scene_defs =
  sceneController_def sceneLayer_def roiGroup_def arrowGroup_def arrowLabel_def
  rectangleGroup_def
  shapeNode_def textNode_def labelNode_def anchorNode_def lengthMeta_def emptyMeta_def
  controllerOf_def plainNode_def

lemma scene_groups:
  "annotationGroups (konvaLayer sceneController) = [roiGroup, arrowGroup, rectangleGroup]"
  by (simp add: annotationGroups_def sceneController_def sceneLayer_def controllerOf_def plainNode_def)

lemma contains_triangle: "containsText ''shape-triangle-0'' ''triangle''"
  by code_simp

lemma scene_types:
  "specGroupType roiGroup = Some ''Roi''"
  "specGroupType arrowGroup = Some ''Arrow''"
  "specGroupType rectangleGroup = Some ''Rectangle''"
  by (simp_all add: specGroupType_def specType_def scene_defs node_test_defs contains_triangle)

lemma scene_drawable: "list_all drawable [roiGroup, arrowGroup, rectangleGroup]"
  by (simp add: drawable_def scene_defs node_test_defs)

theorem getDrawDisplayDetails_types_witness:
  "list_all drawable (annotationGroups (konvaLayer sceneController))
   \<and> (\<exists>ds. fst (getDrawDisplayDetails (\<lambda>i. i) sceneController) = Inr ds
         \<and> map (\<lambda>d. Some (detailsType d)) ds = [Some ''Roi'', Some ''Arrow'', Some ''Rectangle''])"
proof -
  have w: "list_all drawable (annotationGroups (konvaLayer sceneController))"
    by (simp only: scene_groups scene_drawable)
  with getDrawDisplayDetails_types[of sceneController "\<lambda>i. i"] obtain ds where
    "fst (getDrawDisplayDetails (\<lambda>i. i) sceneController) = Inr ds"
    "map (\<lambda>d. Some (detailsType d)) ds = map specGroupType (annotationGroups (konvaLayer sceneController))"
    by blast
  with w show ?thesis
    by (simp add: scene_groups scene_types)
qed

lemma store_details_change_the_scene:
  "konvaLayer (snd (getDrawStoreDetails sceneController)) \<noteq> konvaLayer sceneController"
  by code_simp

theorem getDrawDisplayDetails_pure_witness:
  "snd (getDrawDisplayDetails (\<lambda>i. i) sceneController) = sceneController
   \<and> snd (getDrawDisplayDetails (\<lambda>i. i) bareController) = bareController
   \<and> fst (getDrawDisplayDetails (\<lambda>i. i) bareController) = Inl TypeError
   \<and> konvaLayer (snd (getDrawStoreDetails sceneController)) \<noteq> konvaLayer sceneController"
proof -
  have "fst (getDrawDisplayDetails (\<lambda>i. i) bareController) = Inl TypeError"
    by code_simp
  with getDrawDisplayDetails_pure[of "\<lambda>i. i" sceneController]
    getDrawDisplayDetails_pure[of "\<lambda>i. i" bareController]
    store_details_change_the_scene
  show ?thesis by simp
qed

section \<open>Properties of the update\<close>














lemma updateLabelKids_step:
  "updateLabelKids rf sh d (k # ks) v =
     (let v0 = (if isText k then (case updateMeta d of None \<Rightarrow> v | Some m \<Rightarrow> textExpr m \<noteq> [])
                else v);
          k' = (if isText k then
                  (case updateMeta d of
                     None \<Rightarrow> setShadowColor sh (setFill (updateColor d) k)
                   | Some m \<Rightarrow>
                       setText (rf (textExpr m) (quantification m))
                         (setMeta (Some m) (setShadowColor sh (setFill (updateColor d) k))))
                else setFill (updateColor d) k)
      in (k' # fst (updateLabelKids rf sh d ks v0), snd (updateLabelKids rf sh d ks v0)))"
  by (simp add: Let_def isText_def setFill_def split: option.splits prod.splits)

lemma updateLabelKids_length:
  "length (fst (updateLabelKids rf sh d ks v)) = length ks"
  by (induction ks arbitrary: v)
    (simp_all add: updateLabelKids_step Let_def del: updateLabelKids.simps(2))













text \<open>
  Claim C7, as written, fails: \<open>updateDraw\<close> looks the group up with the selector
  \<^verbatim>\<open>'#' + id\<close>, and the selector syntax takes the blanks out of it and splits it
  at its commas. The groups \<open>g 1\<close> and \<open>g,1\<close> exist, each with a visible label that
  holds a text; called for either with new meta whose template is empty, \<open>updateDraw\<close>
  logs that it cannot find the group and changes nothing else: the text keeps its
  meta and the label stays visible.
\<close>

theorem updateDraw_label_counterexample:
  "groupWithId ''g 1'' (konvaLayer spacedController) = Some spacedGroup
   \<and> nth0 (getChildren isNodeNameLabel spacedGroup) = Some spacedLabel
   \<and> list_ex isText (kids spacedLabel)
   \<and> visible (attrs spacedLabel)
   \<and> updateDraw (\<lambda>col. ''black'') (\<lambda>expr q. expr)
         \<lparr>updateId = ''g 1'', updateColor = ''red'', updateMeta = Some emptyMeta\<rparr> spacedController =
       (Inr (),
        spacedController\<lparr>warnings := [''[updateDraw] Cannot find group with id: g 1'']\<rparr>)
   \<and> groupWithId ''g,1'' (konvaLayer spacedController) = Some commaGroup
   \<and> nth0 (getChildren isNodeNameLabel commaGroup) = Some commaLabel
   \<and> list_ex isText (kids commaLabel)
   \<and> visible (attrs commaLabel)
   \<and> updateDraw (\<lambda>col. ''black'') (\<lambda>expr q. expr)
         \<lparr>updateId = ''g,1'', updateColor = ''red'', updateMeta = Some emptyMeta\<rparr> spacedController =
       (Inr (),
        spacedController\<lparr>warnings := [''[updateDraw] Cannot find group with id: g,1'']\<rparr>)"
  by code_simp




section \<open>Properties of the deletion\<close>

lemma deleteDrawGroup_result:
  "deleteDrawGroup f g c =
     (Inr (),
      c\<lparr>konvaLayer := removeNode (konvaId (attrs g)) (konvaLayer c),
        redraws := redraws c + 1,
        events := events c @ [CommandCallback (f (nth0 (getChildren isNodeNameShape g))) (nid (attrs g)),
                              ExecutedCallback (f (nth0 (getChildren isNodeNameShape g)))]\<rparr>)"
  by (simp add: deleteDrawGroup_def deleteGroupCommandExecute_def newDeleteGroupCommand_def Let_def)

lemma deleteDraws_layer:
  "fst (deleteDraws getShapeDisplayName c) = Inr ()
   \<and> kids (konvaLayer (snd (deleteDraws getShapeDisplayName c))) = []"
proof (induction getShapeDisplayName c rule: deleteDraws.induct)
  case (1 f c)
  show ?case
  proof (cases "kids (konvaLayer c)")
    case Nil
    then show ?thesis
      by (subst (1 2) deleteDraws.simps) simp
  next
    case (Cons g gs)
    obtain c' where c': "deleteDrawGroup f g c = (Inr (), c')"
      by (simp add: deleteDrawGroup_result)
    have step: "deleteDraws f c = deleteDraws f c'"
      by (subst deleteDraws.simps) (simp add: Cons c')
    from "1.IH"[OF Cons c'[symmetric] refl]
    show ?thesis unfolding step by simp
  qed
qed

text \<open>
  Claim C8. For every state of the layer, \<open>deleteDraws\<close> returns (it is a total
  function: each pass detaches the first child the layer has at that moment), it
  returns without an error, and afterwards the layer has no child left, hence no
  annotation group.
\<close>

theorem deleteDraws_empties:
  "fst (deleteDraws getShapeDisplayName c) = Inr ()
   \<and> kids (konvaLayer (snd (deleteDraws getShapeDisplayName c))) = []
   \<and> annotationGroups (konvaLayer (snd (deleteDraws getShapeDisplayName c))) = []"
  using deleteDraws_layer[of getShapeDisplayName c]
  by (simp add: annotationGroups_def)

theorem deleteDraws_empties_witness:
  "annotationGroups (konvaLayer sceneController) = [roiGroup, arrowGroup, rectangleGroup]
   \<and> fst (deleteDraws (\<lambda>shape. ''shape'') sceneController) = Inr ()
   \<and> kids (konvaLayer (snd (deleteDraws (\<lambda>shape. ''shape'') sceneController))) = []
   \<and> annotationGroups (konvaLayer (snd (deleteDraws (\<lambda>shape. ''shape'') sceneController))) = []"
  using deleteDraws_empties[of "\<lambda>shape. ''shape''" sceneController] scene_groups
  by simp





section \<open>Properties of the store details\<close>






















text \<open>
  Claim C9, as written, fails in four ways. An annotation group that holds no text is
  logged, and then reading \<^verbatim>\<open>texts[0].meta\<close> throws a \<open>TypeError\<close>: no mapping is
  returned. An anchor under a child of the layer that is no position group is not
  visited, and stays in the tree. An annotation group that is itself named
  \<^verbatim>\<open>anchor\<close> stays in the tree: only the nodes below a group are searched. A node
  that is no anchor but is held by an anchor leaves the tree with it.
\<close>

theorem getDrawStoreDetails_strips_counterexample:
  "findByName ''text'' (plainNode 40 ''g9'' ''line-group'' ''Group'' []) = []
   \<and> (case fst (getDrawStoreDetails bareController) of
         Inl e \<Rightarrow> e = TypeError
       | Inr drawingsDetails \<Rightarrow> False)
   \<and> snd (getDrawStoreDetails bareController) =
       bareController\<lparr>warnings := [''There should not be more than one text per shape.'']\<rparr>
   \<and> findByName ''anchor'' (konvaLayer strayAnchorController) = [anchorNode 70]
   \<and> \<not> isl (fst (getDrawStoreDetails strayAnchorController))
   \<and> findByName ''anchor'' (konvaLayer (snd (getDrawStoreDetails strayAnchorController))) =
       [anchorNode 70]
   \<and> map (\<lambda>n. nid (attrs n)) (findByName ''anchor'' (konvaLayer anchorGroupController)) = [''g4'']
   \<and> \<not> isl (fst (getDrawStoreDetails anchorGroupController))
   \<and> map (\<lambda>n. nid (attrs n))
        (findByName ''anchor'' (konvaLayer (snd (getDrawStoreDetails anchorGroupController)))) =
       [''g4'']
   \<and> \<not> hasName ''anchor'' gripNode
   \<and> gripNode \<in> set (descendants (konvaLayer nestedAnchorController))
   \<and> \<not> isl (fst (getDrawStoreDetails nestedAnchorController))
   \<and> map (\<lambda>n. konvaId (attrs n))
        (descendants (konvaLayer (snd (getDrawStoreDetails nestedAnchorController)))) =
       [1, 50, 51, 52, 53]"
  by code_simp



lemma scene_names:
  "hasName nm (plainNode k i nm' cls ks) = (nm \<noteq> [] \<and> nm' \<noteq> [] \<and> nm \<in> set (splitNames nm' []))"
  by (simp add: hasName_def plainNode_def)









section \<open>The visibility of the position groups\<close>


















lemma filter_attrs_eq:
  "map attrs ks' = map attrs ks \<Longrightarrow>
     map attrs (filter (\<lambda>n. P (attrs n)) ks') = map attrs (filter (\<lambda>n. P (attrs n)) ks)"
proof (induction ks arbitrary: ks')
  case Nil
  then show ?case by simp
next
  case (Cons k ks)
  then obtain k' rest where "ks' = k' # rest" "attrs k' = attrs k" "map attrs rest = map attrs ks"
    by (cases ks') auto
  with Cons.IH[of rest] show ?case by simp
qed















end
